theory Spec2Isabelle
  imports Complex_Main "HOL-Library.Char_ord" "HOL-Library.List_Lexorder" "HOL-Library.Multiset"
begin

section \<open>Strings\<close>

text \<open>
  Skill names are Python \<open>str\<close> values. They are modelled as \<open>string\<close>, one
  \<open>char\<close> per code point, for text in the ASCII range: the cased characters are the
  Latin letters, and the white space that \<open>str.strip()\<close> removes is
  tab, line feed, vertical tab, form feed, carriage return, the separators
  \<open>0x1c\<close> to \<open>0x1f\<close> and the blank.
\<close>

definition is_upper :: "char \<Rightarrow> bool" where
  "is_upper c = (CHR ''A'' \<le> c \<and> c \<le> CHR ''Z'')"

definition is_lower :: "char \<Rightarrow> bool" where
  "is_lower c = (CHR ''a'' \<le> c \<and> c \<le> CHR ''z'')"

definition is_cased :: "char \<Rightarrow> bool" where
  "is_cased c = (is_upper c \<or> is_lower c)"

definition is_space :: "char \<Rightarrow> bool" where
  "is_space c = ((9::nat) \<le> of_char c \<and> of_char c \<le> (13::nat)
                 \<or> (28::nat) \<le> of_char c \<and> of_char c \<le> (32::nat))"

definition lower_char :: "char \<Rightarrow> char" where
  "lower_char c = (if is_upper c then char_of (of_char c + (32::nat)) else c)"

definition upper_char :: "char \<Rightarrow> char" where
  "upper_char c = (if is_lower c then char_of (of_char c - (32::nat)) else c)"

text \<open>\<open>str.lower()\<close>.\<close>

definition lower :: "string \<Rightarrow> string" where
  "lower s = map lower_char s"

text \<open>
  \<open>str.title()\<close>: a cased character that follows an uncased one (or starts the
  string) is put in upper case, a cased character that follows a cased one in lower case.
\<close>

fun title_from :: "bool \<Rightarrow> string \<Rightarrow> string" where
  "title_from previous_is_cased [] = []"
| "title_from previous_is_cased (c # cs) =
     (if previous_is_cased then lower_char c else upper_char c) # title_from (is_cased c) cs"

definition title :: "string \<Rightarrow> string" where
  "title s = title_from False s"

text \<open>\<open>str.strip()\<close>: leading and trailing white space removed.\<close>

definition strip :: "string \<Rightarrow> string" where
  "strip s = rev (dropWhile is_space (rev (dropWhile is_space s)))"

section \<open>The data model\<close>

text \<open>
  \<open>models/skill.py\<close>. A \<open>Skill\<close> is a mutable object: the lists of a resume, of a job
  and of an analysis result hold references to \<open>Skill\<close> objects, and
  \<open>increment_frequency\<close> updates the object in place. The objects live in a store, a
  list indexed by address; a new object is appended, so its address is the length of the
  store before the allocation.
\<close>

record Skill =
  name :: string
  category :: string
  is_technical :: bool
  frequency :: int

type_synonym addr = nat
type_synonym store = "Skill list"

text \<open>
  The constructor with \<open>__post_init__\<close>: the name is stripped and title-cased.
  \<open>new_Skill\<close> puts the new object into the store.
\<close>

definition Skill_init :: "string \<Rightarrow> string \<Rightarrow> bool \<Rightarrow> int \<Rightarrow> Skill" where
  "Skill_init n c t f =
     \<lparr>name = title (strip n), category = c, is_technical = t, frequency = f\<rparr>"

definition new_Skill :: "store \<Rightarrow> string \<Rightarrow> string \<Rightarrow> bool \<Rightarrow> int \<Rightarrow> addr \<times> store" where
  "new_Skill h n c t f = (length h, h @ [Skill_init n c t f])"

text \<open>The assignment \<open>skill.frequency = f\<close>.\<close>

definition set_frequency :: "store \<Rightarrow> addr \<Rightarrow> int \<Rightarrow> store" where
  "set_frequency h a f = h[a := (h ! a)\<lparr>frequency := f\<rparr>]"

definition increment_frequency :: "store \<Rightarrow> addr \<Rightarrow> store" where
  "increment_frequency h a = set_frequency h a (frequency (h ! a) + 1)"

text \<open>\<open>skill.name.lower()\<close>, the key of every comparison of two skills.\<close>

definition name_lower :: "store \<Rightarrow> addr \<Rightarrow> string" where
  "name_lower h a = lower (name (h ! a))"

definition matches :: "store \<Rightarrow> addr \<Rightarrow> addr \<Rightarrow> bool" where
  "matches h a other = (name_lower h a = name_lower h other)"

text \<open>
  \<open>models/resume.py\<close>, \<open>models/job.py\<close>. The skill collections are lists of references.
\<close>

datatype FileType = PDF | IMAGE | UNKNOWN

record Resume =
  filename :: string
  file_type :: FileType
  extracted_text :: string
  skills :: "addr list"
  user_name :: "string option"
  email :: "string option"
  phone :: "string option"

record Job =
  job_title :: string
  company :: string
  description :: string
  required_skills :: "addr list"
  location :: "string option"
  salary :: "string option"
  url :: "string option"
  posted_date :: "string option"

text \<open>The references held by the required-skill lists of a list of jobs.\<close>

definition required_addrs :: "Job list \<Rightarrow> addr set" where
  "required_addrs jobs = (\<Union>job\<in>set jobs. set (required_skills job))"

text \<open>
  The loop shared by \<open>Resume.add_skill\<close>, \<open>Job.add_required_skill\<close> and
  \<open>AnalysisResult.add_missing_skill\<close>:
  \<^verbatim>\<open>
  for existing_skill in self.skills:
      if existing_skill.matches(skill):
          existing_skill.increment_frequency()
          return
  \<close>
  The result is \<open>Some\<close> of the updated store when the loop returned from the method, and
  \<open>None\<close> when it ran to its end.
\<close>

fun increment_first_match :: "store \<Rightarrow> addr list \<Rightarrow> addr \<Rightarrow> store option" where
  "increment_first_match h [] skill = None"
| "increment_first_match h (existing_skill # rest) skill =
     (if matches h existing_skill skill then Some (increment_frequency h existing_skill)
      else increment_first_match h rest skill)"

definition add_skill :: "store \<Rightarrow> Resume \<Rightarrow> addr \<Rightarrow> store \<times> Resume" where
  "add_skill h r skill =
     (case increment_first_match h (skills r) skill of
        Some h' \<Rightarrow> (h', r)
      | None \<Rightarrow> (h, r\<lparr>skills := skills r @ [skill]\<rparr>))"

definition add_required_skill :: "store \<Rightarrow> Job \<Rightarrow> addr \<Rightarrow> store \<times> Job" where
  "add_required_skill h j skill =
     (case increment_first_match h (required_skills j) skill of
        Some h' \<Rightarrow> (h', j)
      | None \<Rightarrow> (h, j\<lparr>required_skills := required_skills j @ [skill]\<rparr>))"

text \<open>
  \<open>models/learning_resource.py\<close> and \<open>models/analysis_result.py\<close>. The match
  percentage is a Python float; it is kept as a rational number.
\<close>

datatype Platform = UDEMY | COURSERA | YOUTUBE | PLURALSIGHT | LINKEDIN_LEARNING | EDEX
  | FREECODECAMP | OTHER

datatype DifficultyLevel = BEGINNER | INTERMEDIATE | ADVANCED | ALL_LEVELS

record LearningResource =
  skill_name :: string
  resource_title :: string
  resource_url :: string
  platform :: Platform
  duration_weeks :: int
  difficulty_level :: DifficultyLevel
  res_description :: "string option"
  rating :: "rat option"
  price :: string

record AnalysisResult =
  resume :: Resume
  analyzed_jobs :: "Job list"
  matching_skills :: "addr list"
  missing_skills :: "addr list"
  match_percentage :: rat
  recommended_resources :: "LearningResource list"
  learning_path :: string
  cluster_id :: "int option"
  jobs_in_same_cluster :: int

text \<open>\<open>AnalysisResult(resume=resume, analyzed_jobs=jobs)\<close>: every other field at its default.\<close>

definition new_AnalysisResult :: "Resume \<Rightarrow> Job list \<Rightarrow> AnalysisResult" where
  "new_AnalysisResult r jobs =
     \<lparr>resume = r, analyzed_jobs = jobs, matching_skills = [], missing_skills = [],
      match_percentage = 0, recommended_resources = [], learning_path = [],
      cluster_id = None, jobs_in_same_cluster = 0\<rparr>"

definition add_matching_skill :: "store \<Rightarrow> AnalysisResult \<Rightarrow> addr \<Rightarrow> store \<times> AnalysisResult" where
  "add_matching_skill h res skill =
     (if \<not> list_ex (\<lambda>s. matches h s skill) (matching_skills res)
      then (h, res\<lparr>matching_skills := matching_skills res @ [skill]\<rparr>)
      else (h, res))"

definition add_missing_skill :: "store \<Rightarrow> AnalysisResult \<Rightarrow> addr \<Rightarrow> store \<times> AnalysisResult" where
  "add_missing_skill h res skill =
     (case increment_first_match h (missing_skills res) skill of
        Some h' \<Rightarrow> (h', res)
      | None \<Rightarrow> (set_frequency h skill 1,
                 res\<lparr>missing_skills := missing_skills res @ [skill]\<rparr>))"

section \<open>The skill-gap identifier\<close>

text \<open>
  \<open>SkillAnalyzer._identify_skill_gaps\<close> in \<open>services/skill_analyzer.py\<close>. The
  dictionary \<open>all_job_skills\<close> keeps its insertion order, which \<open>items()\<close> follows: it is
  an association list from the lowercased name to the address of the aggregate, extended
  at the end.
\<close>

definition aggregate_skill ::
  "addr \<Rightarrow> store \<times> (string \<times> addr) list \<Rightarrow> store \<times> (string \<times> addr) list" where
  "aggregate_skill skill st =
     (case st of (h, all_job_skills) \<Rightarrow>
        let skill_name_lower = name_lower h skill in
        (case map_of all_job_skills skill_name_lower of
           None \<Rightarrow>
             (case new_Skill h (name (h ! skill)) (category (h ! skill))
                     (is_technical (h ! skill)) 1 of
                (a, h') \<Rightarrow> (h', all_job_skills @ [(skill_name_lower, a)]))
         | Some a \<Rightarrow> (increment_frequency h a, all_job_skills)))"

definition collect_job_skills :: "store \<Rightarrow> Job list \<Rightarrow> store \<times> (string \<times> addr) list" where
  "collect_job_skills h jobs =
     fold (\<lambda>job st. fold aggregate_skill (required_skills job) st) jobs (h, [])"

definition categorize_skill ::
  "string set \<Rightarrow> string \<times> addr \<Rightarrow> store \<times> AnalysisResult \<Rightarrow> store \<times> AnalysisResult" where
  "categorize_skill user_skill_names item st =
     (case item of (skill_name_lower, job_skill) \<Rightarrow>
      case st of (h, res) \<Rightarrow>
        if skill_name_lower \<in> user_skill_names then add_matching_skill h res job_skill
        else add_missing_skill h res job_skill)"

definition identify_skill_gaps ::
  "store \<Rightarrow> Resume \<Rightarrow> Job list \<Rightarrow> AnalysisResult \<Rightarrow> store \<times> AnalysisResult" where
  "identify_skill_gaps h r jobs res =
     (case collect_job_skills h jobs of (h1, all_job_skills) \<Rightarrow>
        let user_skill_names = set (map (name_lower h1) (skills r))
        in fold (categorize_skill user_skill_names) all_job_skills (h1, res))"

section \<open>Vocabulary and overlap score\<close>

text \<open>
  \<open>SkillAnalyzer._create_master_skill_list\<close>. A Python set of strings is a set;
  \<open>sorted(list(all_skills))\<close> lists it in ascending order, which for Python strings is
  the lexicographic order of the code points.
\<close>

definition add_name :: "store \<Rightarrow> addr \<Rightarrow> string set \<Rightarrow> string set" where
  "add_name h skill all_skills = insert (name_lower h skill) all_skills"

text \<open>The loop over the jobs and their required skills, common to both functions.\<close>

definition add_job_names :: "store \<Rightarrow> Job list \<Rightarrow> string set \<Rightarrow> string set" where
  "add_job_names h jobs all_skills =
     fold (\<lambda>job S. fold (add_name h) (required_skills job) S) jobs all_skills"

definition create_master_skill_list :: "store \<Rightarrow> Resume \<Rightarrow> Job list \<Rightarrow> string list" where
  "create_master_skill_list h r jobs =
     (let all_skills = fold (add_name h) (skills r) {};
          all_skills = add_job_names h jobs all_skills
      in sorted_list_of_set all_skills)"





text \<open>The lowercased names required by a list of jobs, and those of a resume.\<close>

definition required_names :: "store \<Rightarrow> Job list \<Rightarrow> string set" where
  "required_names h jobs = name_lower h ` required_addrs jobs"

definition resume_names :: "store \<Rightarrow> Resume \<Rightarrow> string set" where
  "resume_names h r = name_lower h ` set (skills r)"

section \<open>The learning-plan generator\<close>

text \<open>
  \<open>services/learning_path_generator.py\<close>. The characters of the source's literals that
  are outside ASCII are written as their UTF-8 bytes.
\<close>

definition bullet :: string where
  "bullet = [CHR 0xE2, CHR 0x80, CHR 0xA2]"

definition arrow :: string where
  "arrow = [CHR 0xE2, CHR 0x86, CHR 0xB3]"

definition box_line :: string where
  "box_line = [CHR 0xE2, CHR 0x94, CHR 0x80]"

definition star :: string where
  "star = [CHR 0xE2, CHR 0xAD, CHR 0x90]"

definition party :: string where
  "party = [CHR 0xF0, CHR 0x9F, CHR 0x8E, CHR 0x89]"

definition target :: string where
  "target = [CHR 0xF0, CHR 0x9F, CHR 0x8E, CHR 0xAF]"

definition trophy :: string where
  "trophy = [CHR 0xF0, CHR 0x9F, CHR 0x8F, CHR 0x86]"

definition bulb :: string where
  "bulb = [CHR 0xF0, CHR 0x9F, CHR 0x92, CHR 0xA1]"

definition calendar :: string where
  "calendar = [CHR 0xF0, CHR 0x9F, CHR 0x93, CHR 0x85]"

definition book :: string where
  "book = [CHR 0xF0, CHR 0x9F, CHR 0x93, CHR 0x96]"

definition rocket :: string where
  "rocket = [CHR 0xF0, CHR 0x9F, CHR 0x9A, CHR 0x80]"

definition apostrophe :: string where
  "apostrophe = [CHR 0x27]"

text \<open>\<open>s * n\<close>, \<open>sep.join(xs)\<close> and the decimal form of an integer in an f-string.\<close>

definition repeat :: "string \<Rightarrow> nat \<Rightarrow> string" where
  "repeat s n = concat (replicate n s)"

fun join :: "string \<Rightarrow> string list \<Rightarrow> string" where
  "join sep [] = []"
| "join sep [x] = x"
| "join sep (x # y # ys) = x @ sep @ join sep (y # ys)"

fun str_nat :: "nat \<Rightarrow> string" where
  "str_nat n =
     (if n < 10 then [char_of (48 + n)] else str_nat (n div 10) @ [char_of (48 + n mod 10)])"

definition str_int :: "int \<Rightarrow> string" where
  "str_int i = (if i < 0 then ''-'' @ str_nat (nat (- i)) else str_nat (nat i))"

text \<open>The slice \<open>xs[i:j]\<close> for \<open>0 \<le> i \<le> j\<close>; Python cuts it at the end of the list.\<close>

definition slice :: "'a list \<Rightarrow> nat \<Rightarrow> nat \<Rightarrow> 'a list" where
  "slice xs i j = take (j - i) (drop i xs)"

text \<open>
  A dictionary with string keys, in insertion order: \<open>d[k] = v\<close> replaces the value of a
  key that is present and appends a new key; \<open>d.get(k, default)\<close>.
\<close>

fun dict_set :: "(string \<times> 'v) list \<Rightarrow> string \<Rightarrow> 'v \<Rightarrow> (string \<times> 'v) list" where
  "dict_set [] k v = [(k, v)]"
| "dict_set (p # ps) k v = (if fst p = k then (k, v) # ps else p # dict_set ps k v)"

definition dict_get :: "(string \<times> 'v) list \<Rightarrow> string \<Rightarrow> 'v \<Rightarrow> 'v" where
  "dict_get d k dflt = (case map_of d k of None \<Rightarrow> dflt | Some v \<Rightarrow> v)"

text \<open>
  A row of the table \<open>learning_resources\<close>, as \<open>get_learning_resources_by_skill\<close> returns
  it: the columns declared \<open>NOT NULL\<close> are strings, the others may be \<open>NULL\<close>.
\<close>

record ResourceRow =
  row_skill_name :: string
  row_resource_title :: string
  row_resource_url :: string
  row_platform :: string
  row_duration_weeks :: "int option"
  row_difficulty_level :: "string option"
  row_description :: "string option"
  row_rating :: "rat option"
  row_price :: "string option"

text \<open>
  The resource catalog is outside the generator: a lookup takes a skill name and a limit
  and returns rows, or raises an exception that is not an \<open>sqlite3.Error\<close> (\<open>Inl\<close> of
  its message). The generator's use of the catalog is recorded in a log of the lookups
  made, in order.
\<close>

type_synonym catalog = "string \<Rightarrow> nat \<Rightarrow> string + ResourceRow list"
type_synonym lookup_log = "(string \<times> nat) list"

definition platform_value :: "Platform \<Rightarrow> string" where
  "platform_value p =
     (case p of UDEMY \<Rightarrow> ''Udemy'' | COURSERA \<Rightarrow> ''Coursera'' | YOUTUBE \<Rightarrow> ''YouTube''
      | PLURALSIGHT \<Rightarrow> ''Pluralsight'' | LINKEDIN_LEARNING \<Rightarrow> ''LinkedIn Learning''
      | EDEX \<Rightarrow> ''edX'' | FREECODECAMP \<Rightarrow> ''freeCodeCamp'' | OTHER \<Rightarrow> ''Other'')"

definition difficulty_value :: "DifficultyLevel \<Rightarrow> string" where
  "difficulty_value d =
     (case d of BEGINNER \<Rightarrow> ''Beginner'' | INTERMEDIATE \<Rightarrow> ''Intermediate''
      | ADVANCED \<Rightarrow> ''Advanced'' | ALL_LEVELS \<Rightarrow> ''All Levels'')"

text \<open>\<open>Platform(platform_str)\<close>, with \<open>OTHER\<close> on \<open>ValueError\<close>.\<close>

definition parse_platform :: "string \<Rightarrow> Platform" where
  "parse_platform platform_str =
     (case find (\<lambda>p. platform_value p = platform_str)
             [UDEMY, COURSERA, YOUTUBE, PLURALSIGHT, LINKEDIN_LEARNING, EDEX, FREECODECAMP, OTHER] of
        Some p \<Rightarrow> p
      | None \<Rightarrow> OTHER)"

text \<open>\<open>DifficultyLevel(difficulty_str)\<close>, with \<open>BEGINNER\<close> on \<open>ValueError\<close> (so on \<open>None\<close>).\<close>

definition parse_difficulty :: "string option \<Rightarrow> DifficultyLevel" where
  "parse_difficulty difficulty_str =
     (case difficulty_str of
        None \<Rightarrow> BEGINNER
      | Some s \<Rightarrow>
          (case find (\<lambda>d. difficulty_value d = s) [BEGINNER, INTERMEDIATE, ADVANCED, ALL_LEVELS] of
             Some d \<Rightarrow> d
           | None \<Rightarrow> BEGINNER))"

definition row_to_resource :: "ResourceRow \<Rightarrow> LearningResource" where
  "row_to_resource row =
     \<lparr>skill_name = row_skill_name row,
      resource_title = row_resource_title row,
      resource_url = row_resource_url row,
      platform = parse_platform (row_platform row),
      duration_weeks =
        (case row_duration_weeks row of None \<Rightarrow> 1 | Some d \<Rightarrow> if d = 0 then 1 else d),
      difficulty_level = parse_difficulty (row_difficulty_level row),
      res_description = row_description row,
      rating = row_rating row,
      price = (case row_price row of None \<Rightarrow> ''Free'' | Some p \<Rightarrow> if p = [] then ''Free'' else p)\<rparr>"

definition prioritize_skills :: "addr list \<Rightarrow> nat \<Rightarrow> addr list" where
  "prioritize_skills skill_list max_skills = take max_skills skill_list"

text \<open>
  \<open>_fetch_resources_for_skills\<close>: one lookup per skill, with limit 3. An exception of a
  lookup ends the loop and leaves the method.
\<close>

fun fetch_resources_for_skills ::
  "catalog \<Rightarrow> store \<Rightarrow> addr list \<Rightarrow> (string \<times> LearningResource list) list \<Rightarrow> lookup_log \<Rightarrow>
     (string + (string \<times> LearningResource list) list) \<times> lookup_log" where
  "fetch_resources_for_skills db h [] skill_resources lookups = (Inr skill_resources, lookups)"
| "fetch_resources_for_skills db h (skill # rest) skill_resources lookups =
     (case db (name (h ! skill)) 3 of
        Inl e \<Rightarrow> (Inl e, lookups @ [(name (h ! skill), 3)])
      | Inr db_resources \<Rightarrow>
          fetch_resources_for_skills db h rest
            (dict_set skill_resources (name (h ! skill)) (map row_to_resource db_resources))
            (lookups @ [(name (h ! skill), 3)]))"

definition generate_milestones :: "store \<Rightarrow> nat \<Rightarrow> addr list \<Rightarrow> string list" where
  "generate_milestones h week skill_list =
     concat (map (\<lambda>skill.
        [''Complete '' @ name (h ! skill) @ '' tutorial/course'',
         ''Build a small project using '' @ name (h ! skill)]) skill_list)
     @ [''Document your learning progress'', ''Update your resume with new skills'']"

record week_data =
  week_number :: nat
  week_skills :: "addr list"
  week_resources :: "(string \<times> LearningResource list) list"
  milestones :: "string list"

text \<open>
  \<open>_distribute_skills_across_weeks\<close>: the loop runs over the weeks of \<open>range(1, 5)\<close> and
  is left by \<open>break\<close> at the first week without skills.
\<close>

definition skills_per_week :: nat where
  "skills_per_week = 2"

definition week_entry ::
  "store \<Rightarrow> (string \<times> LearningResource list) list \<Rightarrow> nat \<Rightarrow> addr list \<Rightarrow> week_data" where
  "week_entry h skill_resources week week_skills' =
     \<lparr>week_number = week,
      week_skills = week_skills',
      week_resources =
        fold (\<lambda>skill d. dict_set d (name (h ! skill))
                            (dict_get skill_resources (name (h ! skill)) []))
             week_skills' [],
      milestones = generate_milestones h week week_skills'\<rparr>"

fun distribute_weeks ::
  "store \<Rightarrow> addr list \<Rightarrow> (string \<times> LearningResource list) list \<Rightarrow> nat list \<Rightarrow>
     week_data list \<Rightarrow> week_data list" where
  "distribute_weeks h skill_list skill_resources [] weekly_plan = weekly_plan"
| "distribute_weeks h skill_list skill_resources (week # weeks) weekly_plan =
     (let start_idx = (week - 1) * skills_per_week;
          end_idx = start_idx + skills_per_week;
          week_skills' = slice skill_list start_idx end_idx
      in if week_skills' = [] then weekly_plan
         else distribute_weeks h skill_list skill_resources weeks
                (weekly_plan @ [week_entry h skill_resources week week_skills']))"

definition distribute_skills_across_weeks ::
  "store \<Rightarrow> addr list \<Rightarrow> (string \<times> LearningResource list) list \<Rightarrow> week_data list" where
  "distribute_skills_across_weeks h skill_list skill_resources =
     distribute_weeks h skill_list skill_resources [1, 2, 3, 4] []"

text \<open>
  \<open>_format_learning_path\<close>. The rendering of a float in an f-string and the time of the
  call are parameters: \<open>str_float\<close> and \<open>now\<close>, the latter already formatted.
\<close>

definition format_resource :: "(rat \<Rightarrow> string) \<Rightarrow> nat \<times> LearningResource \<Rightarrow> string list" where
  "format_resource str_float ir =
     (case ir of (i, resource) \<Rightarrow>
        [''   '' @ str_nat i @ ''. '' @ resource_title resource @
           '' ('' @ platform_value (platform resource) @ '')'',
         ''      '' @ arrow @ '' '' @ resource_url resource]
        @ (case rating resource of
             None \<Rightarrow> []
           | Some x \<Rightarrow>
               if x = 0 then []
               else [''      '' @ star @ '' Rating: '' @ str_float x @ ''/5.0 | '' @
                     ''Duration: '' @ str_int (duration_weeks resource) @ '' week(s) | '' @
                     ''Level: '' @ difficulty_value (difficulty_level resource)]))"

definition enumerate1 :: "'a list \<Rightarrow> (nat \<times> 'a) list" where
  "enumerate1 xs = zip [1 ..< Suc (length xs)] xs"

definition format_skill ::
  "(rat \<Rightarrow> string) \<Rightarrow> store \<Rightarrow> (string \<times> LearningResource list) list \<Rightarrow> addr \<Rightarrow> string list" where
  "format_skill str_float h resources skill =
     [book @ '' '' @ name (h ! skill) @ '' Learning Resources:'']
     @ (let skill_resources = dict_get resources (name (h ! skill)) []
        in if skill_resources \<noteq> []
           then concat (map (format_resource str_float) (enumerate1 (take 2 skill_resources)))
           else [''   '' @ bullet @ '' Search online for '' @ apostrophe @ name (h ! skill) @
                   '' tutorial'' @ apostrophe,
                 ''   '' @ bullet @ '' Check platforms: Udemy, Coursera, YouTube''])
     @ ['''']"

definition format_week :: "(rat \<Rightarrow> string) \<Rightarrow> store \<Rightarrow> week_data \<Rightarrow> string list" where
  "format_week str_float h wd =
     [repeat box_line 70,
      calendar @ '' WEEK '' @ str_nat (week_number wd),
      repeat box_line 70,
      '''',
      target @ '' Focus Skills: '' @ join '', '' (map (\<lambda>s. name (h ! s)) (week_skills wd)),
      '''']
     @ concat (map (format_skill str_float h (week_resources wd)) (week_skills wd))
     @ [trophy @ '' Week '' @ str_nat (week_number wd) @ '' Milestones:'']
     @ map (\<lambda>(i, milestone). ''   '' @ str_nat i @ ''. '' @ milestone)
           (enumerate1 (take 4 (milestones wd)))
     @ ['''']"

definition format_learning_path ::
  "(rat \<Rightarrow> string) \<Rightarrow> string \<Rightarrow> store \<Rightarrow> week_data list \<Rightarrow> AnalysisResult \<Rightarrow> string" where
  "format_learning_path str_float now h weekly_plan res =
     join ''\<newline>''
       ([repeat ''='' 70,
         ''YOUR PERSONALIZED 4-WEEK LEARNING PATH'',
         repeat ''='' 70,
         '''',
         ''Generated on: '' @ now,
         ''Overall Match: '' @ str_float (match_percentage res) @ ''%'',
         ''Skills to Learn: '' @ str_nat (length (missing_skills res)),
         '''']
        @ concat (map (format_week str_float h) weekly_plan)
        @ [repeat ''='' 70,
           bulb @ '' TIPS FOR SUCCESS'',
           repeat ''='' 70,
           '''',
           bullet @ '' Dedicate 1-2 hours daily to learning'',
           bullet @ '' Build projects to reinforce concepts'',
           bullet @ '' Join online communities (Stack Overflow, Reddit, Discord)'',
           bullet @ '' Document your progress on GitHub'',
           bullet @ '' Update your resume as you learn new skills'',
           bullet @ '' Don'' @ apostrophe @ ''t rush - deep understanding beats speed'',
           '''',
           repeat ''='' 70,
           ''Good luck on your learning journey! '' @ rocket,
           repeat ''='' 70])"

definition no_gaps_lines :: "(rat \<Rightarrow> string) \<Rightarrow> AnalysisResult \<Rightarrow> string list" where
  "no_gaps_lines str_float res =
     [repeat ''='' 70,
      party @ '' CONGRATULATIONS!'',
      repeat ''='' 70,
      '''',
      ''Overall Match: '' @ str_float (match_percentage res) @ ''%'',
      '''',
      ''You already have all the key skills required for the analyzed jobs!'',
      ''Consider focusing on:'',
      '''',
      bullet @ '' Advanced topics in your existing skills'',
      bullet @ '' Emerging technologies in your field'',
      bullet @ '' Leadership and soft skills development'',
      bullet @ '' Building a strong portfolio of projects'',
      '''',
      repeat ''='' 70]"

definition generate_no_gaps_message :: "(rat \<Rightarrow> string) \<Rightarrow> AnalysisResult \<Rightarrow> string" where
  "generate_no_gaps_message str_float res = join ''\<newline>'' (no_gaps_lines str_float res)"

text \<open>
  \<open>generate_learning_path\<close> returns the text; the model returns with it the result, whose
  recommended resources the method extends, and the log of the catalog lookups it made.
\<close>

definition generate_learning_path ::
  "catalog \<Rightarrow> (rat \<Rightarrow> string) \<Rightarrow> string \<Rightarrow> store \<Rightarrow> AnalysisResult \<Rightarrow>
     string \<times> AnalysisResult \<times> lookup_log" where
  "generate_learning_path db str_float now h res =
     (if missing_skills res = [] then (generate_no_gaps_message str_float res, res, [])
      else
        let priority_skills = prioritize_skills (missing_skills res) 8
        in case fetch_resources_for_skills db h priority_skills [] [] of
             (Inl e, lookups) \<Rightarrow> (''Error generating learning path: '' @ e, res, lookups)
           | (Inr skill_resources, lookups) \<Rightarrow>
               let weekly_plan = distribute_skills_across_weeks h priority_skills skill_resources;
                   learning_path = format_learning_path str_float now h weekly_plan res
               in (learning_path,
                   res\<lparr>recommended_resources :=
                         recommended_resources res @ concat (map snd skill_resources)\<rparr>,
                   lookups))"

section \<open>The skill extractor\<close>

text \<open>
  \<open>services/skill_extractor.py\<close>. The class constants, each in the order of the source. The
  dictionary, the stop list and the soft skills are Python sets: their literals are listed
  here, a repeated entry included, and used through \<open>set\<close>.
\<close>

definition SKILL_DICTIONARY :: "string list" where
  "SKILL_DICTIONARY =
     [''python'', ''java'', ''javascript'', ''typescript'', ''c++'', ''c#'', ''ruby'',
      ''php'', ''swift'', ''kotlin'', ''go'', ''golang'', ''rust'', ''scala'', ''perl'',
      ''r'', ''matlab'', ''vba'', ''objective-c'', ''dart'', ''elixir'', ''haskell'',
      ''clojure'', ''html'', ''css'', ''html5'', ''css3'', ''sass'', ''scss'', ''less'',
      ''xml'', ''json'', ''ajax'', ''rest'', ''restful'', ''graphql'', ''websocket'',
      ''soap'', ''react'', ''angular'', ''vue'', ''vue.js'', ''ember'', ''backbone'',
      ''jquery'', ''bootstrap'', ''tailwind'', ''material-ui'', ''next.js'', ''nuxt.js'',
      ''svelte'', ''node.js'', ''express'', ''django'', ''flask'', ''fastapi'', ''spring'',
      ''spring boot'', ''laravel'', ''symfony'', ''rails'', ''ruby on rails'', ''asp.net'',
      ''.net'', ''dotnet'', ''sql'', ''mysql'', ''postgresql'', ''postgres'', ''oracle'',
      ''mongodb'', ''redis'', ''cassandra'', ''dynamodb'', ''elasticsearch'', ''sqlite'',
      ''mariadb'', ''neo4j'', ''couchdb'', ''influxdb'', ''aws'', ''azure'', ''gcp'',
      ''google cloud'', ''docker'', ''kubernetes'', ''k8s'', ''jenkins'', ''gitlab'',
      ''github actions'', ''circleci'', ''travis ci'', ''terraform'', ''ansible'',
      ''puppet'', ''chef'', ''vagrant'', ''heroku'', ''digitalocean'', ''nginx'',
      ''apache'', ''machine learning'', ''deep learning'', ''tensorflow'', ''pytorch'',
      ''keras'', ''scikit-learn'', ''pandas'', ''numpy'', ''scipy'', ''matplotlib'',
      ''seaborn'', ''jupyter'', ''anaconda'', ''spark'', ''hadoop'', ''hive'', ''pig'',
      ''data analysis'', ''data science'', ''nlp'', ''computer vision'',
      ''neural networks'', ''cnn'', ''rnn'', ''lstm'', ''bert'', ''transformers'',
      ''android'', ''ios'', ''react native'', ''flutter'', ''xamarin'', ''cordova'',
      ''ionic'', ''swift ui'', ''jetpack compose'', ''unit testing'',
      ''integration testing'', ''pytest'', ''junit'', ''selenium'', ''cypress'', ''jest'',
      ''mocha'', ''chai'', ''testng'', ''cucumber'', ''git'', ''github'', ''gitlab'',
      ''bitbucket'', ''svn'', ''mercurial'', ''agile'', ''scrum'', ''kanban'',
      ''waterfall'', ''ci/cd'', ''tdd'', ''bdd'', ''devops'', ''linux'', ''unix'',
      ''bash'', ''shell scripting'', ''powershell'', ''vim'', ''emacs'', ''vscode'',
      ''intellij'', ''eclipse'', ''pycharm'', ''postman'', ''swagger'', ''jira'',
      ''confluence'', ''slack'', ''trello'', ''notion'', ''kafka'', ''rabbitmq'',
      ''airflow'', ''flink'', ''storm'', ''etl'', ''oauth'', ''jwt'', ''ssl'', ''tls'',
      ''encryption'', ''cybersecurity'', ''penetration testing'', ''leadership'',
      ''communication'', ''teamwork'', ''problem solving'', ''analytical'',
      ''project management'', ''time management'', ''critical thinking'']"

definition EXCLUDED_WORDS :: "string list" where
  "EXCLUDED_WORDS =
     [''experience'', ''years'', ''months'', ''customer'', ''date'', ''time'', ''work'',
      ''project'', ''team'', ''company'', ''position'', ''role'', ''skills'',
      ''education'', ''university'', ''college'', ''school'', ''degree'', ''bachelor'',
      ''master'', ''phd'']"

definition SKILL_CATEGORIES :: "(string \<times> string) list" where
  "SKILL_CATEGORIES =
     [(''python'', ''Programming Language''), (''java'', ''Programming Language''),
      (''javascript'', ''Programming Language''),
      (''typescript'', ''Programming Language''), (''c++'', ''Programming Language''),
      (''c#'', ''Programming Language''), (''ruby'', ''Programming Language''),
      (''php'', ''Programming Language''), (''go'', ''Programming Language''),
      (''golang'', ''Programming Language''), (''rust'', ''Programming Language''),
      (''react'', ''Frontend Framework''), (''angular'', ''Frontend Framework''),
      (''vue'', ''Frontend Framework''), (''django'', ''Backend Framework''),
      (''flask'', ''Backend Framework''), (''spring'', ''Backend Framework''),
      (''spring boot'', ''Backend Framework''), (''express'', ''Backend Framework''),
      (''node.js'', ''Backend Framework''), (''sql'', ''Database''),
      (''mysql'', ''Database''), (''postgresql'', ''Database''),
      (''mongodb'', ''Database''), (''redis'', ''Database''), (''oracle'', ''Database''),
      (''aws'', ''Cloud Platform''), (''azure'', ''Cloud Platform''),
      (''gcp'', ''Cloud Platform''), (''google cloud'', ''Cloud Platform''),
      (''docker'', ''DevOps Tool''), (''kubernetes'', ''DevOps Tool''),
      (''jenkins'', ''DevOps Tool''), (''terraform'', ''DevOps Tool''),
      (''machine learning'', ''Machine Learning''), (''tensorflow'', ''Machine Learning''),
      (''pytorch'', ''Machine Learning''), (''keras'', ''Machine Learning''),
      (''leadership'', ''Soft Skill''), (''communication'', ''Soft Skill''),
      (''teamwork'', ''Soft Skill''), (''problem solving'', ''Soft Skill'')]"

definition SOFT_SKILLS :: "string list" where
  "SOFT_SKILLS =
     [''leadership'', ''communication'', ''teamwork'', ''problem solving'', ''analytical'',
      ''project management'', ''time management'', ''critical thinking'']"

text \<open>
  The two regular expressions of the extractor have the form
  \<open>\b\<close> \<open>re.escape(word)\<close> \<open>\b\<close>: the literal \<open>word\<close> between two word boundaries. A word
  character is a letter, a digit or the underscore; there is a boundary at a position
  when exactly one of the characters before and after it is a word character, a missing
  character counting as none.
\<close>

definition is_word_char :: "char \<Rightarrow> bool" where
  "is_word_char c =
     (is_cased c \<or> (CHR ''0'' \<le> c \<and> c \<le> CHR ''9'') \<or> c = CHR ''_'')"

definition word_at :: "string \<Rightarrow> nat \<Rightarrow> bool" where
  "word_at text i = (i < length text \<and> is_word_char (text ! i))"

definition word_boundary :: "string \<Rightarrow> nat \<Rightarrow> bool" where
  "word_boundary text i = ((0 < i \<and> word_at text (i - 1)) \<noteq> word_at text i)"

definition matches_at :: "string \<Rightarrow> string \<Rightarrow> nat \<Rightarrow> bool" where
  "matches_at word text i =
     (word_boundary text i \<and> take (length word) (drop i text) = word \<and>
      word_boundary text (i + length word))"

text \<open>\<open>re.search(pattern, text)\<close> as a truth value.\<close>

definition re_search :: "string \<Rightarrow> string \<Rightarrow> bool" where
  "re_search word text = list_ex (matches_at word text) [0 ..< Suc (length text)]"

text \<open>
  \<open>len(re.findall(pattern, text))\<close>: the matches are found from left to right and do not
  overlap.
\<close>

function count_matches :: "string \<Rightarrow> string \<Rightarrow> nat \<Rightarrow> nat" where
  "count_matches word text i =
     (if length text < i then 0
      else if matches_at word text i
        then Suc (count_matches word text (i + max 1 (length word)))
        else count_matches word text (Suc i))"
  by pat_completeness auto
termination
  by (relation "measure (\<lambda>(word, text, i). Suc (length text) - i)") auto

definition count_skill_frequency :: "string \<Rightarrow> string \<Rightarrow> int" where
  "count_skill_frequency text skill_name' =
     (let text_lower = lower text; skill_lower = lower skill_name'
      in int (count_matches skill_lower text_lower 0))"

definition extract_skills_dictionary :: "string \<Rightarrow> string set" where
  "extract_skills_dictionary text =
     (let text_lower = lower text
      in fold (\<lambda>skill found_skills.
                 if skill \<in> set EXCLUDED_WORDS then found_skills
                 else if re_search skill text_lower then insert (title skill) found_skills
                 else found_skills)
              SKILL_DICTIONARY {})"

text \<open>
  The linguistic model is outside the extractor. \<open>self.nlp\<close> is \<open>None\<close> when the model could
  not be loaded; otherwise it maps a text to a document, given by the texts of its noun
  chunks and by its tokens with their part-of-speech tags, or raises (\<open>None\<close>), which
  \<open>_extract_skills_nlp\<close> catches.
\<close>

record Doc =
  noun_chunks :: "string list"
  tokens :: "(string \<times> string) list"

type_synonym language_model = "string \<Rightarrow> Doc option"

definition extract_skills_nlp :: "language_model option \<Rightarrow> string \<Rightarrow> string set" where
  "extract_skills_nlp nlp text =
     (case nlp of
        None \<Rightarrow> {}
      | Some model \<Rightarrow>
          (case model text of
             None \<Rightarrow> {}
           | Some doc \<Rightarrow>
               let found_skills =
                     fold (\<lambda>chunk found_skills.
                             let chunk_text = strip (lower chunk)
                             in if chunk_text \<in> set SKILL_DICTIONARY \<and>
                                   chunk_text \<notin> set EXCLUDED_WORDS
                                then insert (title chunk_text) found_skills else found_skills)
                          (noun_chunks doc) {}
               in fold (\<lambda>token found_skills.
                          if snd token \<in> {''NOUN'', ''PROPN''}
                          then let token_text = strip (lower (fst token))
                               in if token_text \<in> set SKILL_DICTIONARY \<and>
                                     token_text \<notin> set EXCLUDED_WORDS
                                  then insert (title token_text) found_skills
                                  else found_skills
                          else found_skills)
                       (tokens doc) found_skills))"

text \<open>
  \<open>extract_skills\<close>. The text may be \<open>None\<close>. The order in which Python iterates over the
  set \<open>all_skill_names\<close> is not specified: it is the parameter \<open>iteration_order\<close>. The sort
  by descending frequency is stable. The skills returned are new objects, given by value.
  With the list of skills the model returns the detectors that were run, in order. No step
  of the \<open>try\<close> block raises here: the one call that can, the linguistic model, is caught
  inside \<open>_extract_skills_nlp\<close>.
\<close>

datatype detector = DictionaryDetector | LinguisticDetector

definition extract_skills ::
  "language_model option \<Rightarrow> (string set \<Rightarrow> string list) \<Rightarrow> string option \<Rightarrow>
     Skill list \<times> detector list" where
  "extract_skills nlp iteration_order text =
     (case text of
        None \<Rightarrow> ([], [])
      | Some t \<Rightarrow>
          if t = [] \<or> length (strip t) < 10 then ([], [])
          else
            let dict_skills = extract_skills_dictionary t;
                (nlp_skills, detectors) =
                  (case nlp of
                     None \<Rightarrow> ({}, [DictionaryDetector])
                   | Some model \<Rightarrow>
                       (extract_skills_nlp nlp t, [DictionaryDetector, LinguisticDetector]));
                all_skill_names = dict_skills \<union> nlp_skills;
                skill_list =
                  map (\<lambda>skill_name'.
                         let skill_lower = lower skill_name';
                             category' = dict_get SKILL_CATEGORIES skill_lower ''Technical'';
                             is_technical' = (skill_lower \<notin> set SOFT_SKILLS);
                             frequency' = count_skill_frequency t skill_name'
                         in Skill_init skill_name' category' is_technical' frequency')
                      (iteration_order all_skill_names)
            in (sort_key (\<lambda>s. - frequency s) skill_list, detectors))"

section \<open>Well-formed inputs and invariants\<close>

text \<open>
  Every \<open>Skill\<close> object is built by the constructor, which strips and title-cases the
  name: the name of an object in the store is a fixed point of that normalisation.
\<close>

definition normalized :: "string \<Rightarrow> bool" where
  "normalized n = (title (strip n) = n)"

text \<open>
  The references of a set \<open>A\<close> are well formed in a store when each of them is the
  address of an object with a normalised name.
\<close>

definition skill_objects :: "store \<Rightarrow> addr set \<Rightarrow> bool" where
  "skill_objects h A = (\<forall>a\<in>A. a < length h \<and> normalized (name (h ! a)))"

text \<open>
  A skill collection is deduplicated when no two of its entries have the same lowercased
  name: the invariant of the collections of a resume and of a job.
\<close>

definition deduplicated :: "store \<Rightarrow> addr list \<Rightarrow> bool" where
  "deduplicated h xs = distinct (map (name_lower h) xs)"

text \<open>
  The invariants of the aggregation loop, relative to the store \<open>h0\<close> at its start: the
  objects of \<open>h0\<close> are untouched, and every entry of the dictionary refers to an object
  allocated by the loop, under the lowercased name of that object.
\<close>

definition frame_inv :: "store \<Rightarrow> store \<times> (string \<times> addr) list \<Rightarrow> bool" where
  "frame_inv h0 st = (case st of (h, d) \<Rightarrow>
     length h0 \<le> length h \<and> take (length h0) h = h0 \<and> (\<forall>a\<in>snd ` set d. length h0 \<le> a))"

definition agg_inv :: "store \<Rightarrow> store \<times> (string \<times> addr) list \<Rightarrow> bool" where
  "agg_inv h0 st = (case st of (h, d) \<Rightarrow>
     length h0 \<le> length h \<and> take (length h0) h = h0 \<and>
     (\<forall>(k, a)\<in>set d. length h0 \<le> a \<and> a < length h \<and> name_lower h a = k) \<and>
     distinct (map fst d))"

definition result_frame_inv :: "store \<Rightarrow> store \<times> AnalysisResult \<Rightarrow> bool" where
  "result_frame_inv h0 st = (case st of (h, res) \<Rightarrow>
     length h0 \<le> length h \<and> take (length h0) h = h0 \<and>
     (\<forall>a\<in>set (missing_skills res). length h0 \<le> a))"

section \<open>The example of the specification\<close>

text \<open>
  Resume skills Python, SQL, Git; Job1 requires Python and Docker, Job2 requires SQL and
  Docker. Each skill is an object of its own, with the name as the constructor leaves it
  (\<open>'SQL'.title()\<close> is \<open>'Sql'\<close>).
\<close>

definition example_skill :: "string \<Rightarrow> Skill" where
  "example_skill n = \<lparr>name = n, category = ''Technical'', is_technical = True, frequency = 0\<rparr>"

definition example_store :: store where
  "example_store =
     [example_skill ''Python'', example_skill ''Sql'', example_skill ''Git'',
      example_skill ''Python'', example_skill ''Docker'',
      example_skill ''Sql'', example_skill ''Docker'']"

definition example_resume :: Resume where
  "example_resume =
     \<lparr>filename = ''resume.pdf'', file_type = PDF, extracted_text = [], skills = [0, 1, 2],
      user_name = None, email = None, phone = None\<rparr>"

definition example_job :: "string \<Rightarrow> addr list \<Rightarrow> Job" where
  "example_job t xs =
     \<lparr>job_title = t, company = ''Company'', description = [], required_skills = xs,
      location = None, salary = None, url = None, posted_date = None\<rparr>"

definition example_jobs :: "Job list" where
  "example_jobs = [example_job ''Job1'' [3, 4], example_job ''Job2'' [5, 6]]"

text \<open>A result that already holds the matching skill Python and the missing skill Docker.\<close>

definition example_result :: AnalysisResult where
  "example_result =
     (new_AnalysisResult example_resume example_jobs)\<lparr>matching_skills := [0], missing_skills := [4]\<rparr>"

section \<open>The periods of a learning plan\<close>

text \<open>
  The skills of period \<open>week\<close> (counted from 1) are the slice
  \<open>skills[2 (week - 1) : 2 week]\<close>; \<open>planned_week\<close> is the entry of the plan for that
  period.
\<close>

definition period_skills :: "addr list \<Rightarrow> nat \<Rightarrow> addr list" where
  "period_skills skill_list week = slice skill_list (2 * (week - 1)) (2 * week)"

definition planned_week ::
  "store \<Rightarrow> addr list \<Rightarrow> (string \<times> LearningResource list) list \<Rightarrow> nat \<Rightarrow> week_data" where
  "planned_week h skill_list skill_resources week =
     week_entry h skill_resources week (period_skills skill_list week)"

text \<open>
  The structured plan of \<open>generate_learning_path\<close> for the missing skills \<open>ms\<close>: its
  steps 1 and 3, the prioritisation and the distribution over the weeks.
\<close>

definition weekly_plan_of ::
  "store \<Rightarrow> addr list \<Rightarrow> (string \<times> LearningResource list) list \<Rightarrow> week_data list" where
  "weekly_plan_of h ms skill_resources =
     distribute_skills_across_weeks h (prioritize_skills ms 8) skill_resources"

text \<open>The ten missing skills of the generator's own test, as objects of a store.\<close>

definition ten_skills :: store where
  "ten_skills =
     map (\<lambda>(n, f). \<lparr>name = n, category = ''Technical'', is_technical = True, frequency = f\<rparr>)
       [(''Docker'', 1), (''Kubernetes'', 1), (''Aws'', 1), (''React'', 1), (''Typescript'', 1),
        (''Mongodb'', 1), (''Redis'', 1), (''Graphql'', 1), (''Tensorflow'', 1), (''Jenkins'', 1)]"




section \<open>Basic facts about the store\<close>

lemma name_lower_set_frequency [simp]:
  "name_lower (set_frequency h a f) b = name_lower h b"
  by (cases "a < length h"; cases "a = b")
     (simp_all add: name_lower_def set_frequency_def list_update_beyond)

lemma length_set_frequency [simp]: "length (set_frequency h a f) = length h"
  by (simp add: set_frequency_def)

lemma take_set_frequency: "n \<le> a \<Longrightarrow> take n (set_frequency h a f) = take n h"
  by (simp add: set_frequency_def)

lemma name_lower_increment [simp]:
  "name_lower (increment_frequency h a) b = name_lower h b"
  by (simp add: increment_frequency_def)

lemma matches_increment [simp]:
  "matches (increment_frequency h a) b c = matches h b c"
  by (simp add: matches_def)

lemma length_increment [simp]: "length (increment_frequency h a) = length h"
  by (simp add: increment_frequency_def)

lemma take_increment: "n \<le> a \<Longrightarrow> take n (increment_frequency h a) = take n h"
  by (simp add: increment_frequency_def take_set_frequency)

lemma increment_first_match_None:
  "increment_first_match h xs skill = None \<longleftrightarrow> (\<forall>e\<in>set xs. \<not> matches h e skill)"
  by (induction xs) simp_all

lemma increment_first_match_Some:
  "increment_first_match h xs skill = Some h' \<Longrightarrow> \<exists>e\<in>set xs. h' = increment_frequency h e"
  by (induction xs) (auto split: if_splits)

subsection \<open>The store outside the new objects\<close>

lemma frame_inv_aggregate:
  "frame_inv h0 st \<Longrightarrow> frame_inv h0 (aggregate_skill skill st)"
  by (cases st)
     (auto simp: frame_inv_def aggregate_skill_def new_Skill_def Skill_init_def Let_def take_increment
           split: option.splits dest!: map_of_SomeD)

lemma frame_inv_fold:
  "frame_inv h0 st \<Longrightarrow> frame_inv h0 (fold aggregate_skill xs st)"
  by (induction xs arbitrary: st) (simp_all add: frame_inv_aggregate)

lemma frame_inv_jobs:
  "frame_inv h0 st \<Longrightarrow>
   frame_inv h0 (fold (\<lambda>job st. fold aggregate_skill (required_skills job) st) jobs st)"
  by (induction jobs arbitrary: st) (simp_all add: frame_inv_fold)

lemma frame_inv_collect: "frame_inv h (collect_job_skills h jobs)"
  unfolding collect_job_skills_def
  by (rule frame_inv_jobs) (simp add: frame_inv_def)

lemma result_frame_inv_categorize:
  assumes "result_frame_inv h0 st" and "length h0 \<le> snd item"
  shows "result_frame_inv h0 (categorize_skill U item st)"
proof -
  obtain h res where st: "st = (h, res)" by (cases st)
  obtain k a where item: "item = (k, a)" by (cases item)
  from assms st item have len: "length h0 \<le> length h" and tk: "take (length h0) h = h0"
    and ms: "\<forall>e\<in>set (missing_skills res). length h0 \<le> e" and a: "length h0 \<le> a"
    by (auto simp: result_frame_inv_def)
  show ?thesis
  proof (cases "k \<in> U")
    case True
    then show ?thesis using len tk ms
      by (simp add: st item categorize_skill_def add_matching_skill_def result_frame_inv_def)
  next
    case False
    show ?thesis
    proof (cases "increment_first_match h (missing_skills res) a")
      case None
      then show ?thesis using False len tk ms a
        by (simp add: st item categorize_skill_def add_missing_skill_def result_frame_inv_def
            take_set_frequency)
    next
      case (Some h')
      then obtain e where "e \<in> set (missing_skills res)" and "h' = increment_frequency h e"
        by (auto dest: increment_first_match_Some)
      then show ?thesis using Some False len tk ms
        by (simp add: st item categorize_skill_def add_missing_skill_def result_frame_inv_def
            take_increment)
    qed
  qed
qed

lemma result_frame_inv_fold:
  "result_frame_inv h0 st \<Longrightarrow> \<forall>a\<in>snd ` set d. length h0 \<le> a \<Longrightarrow>
   result_frame_inv h0 (fold (categorize_skill U) d st)"
  by (induction d arbitrary: st) (simp_all add: result_frame_inv_categorize)

lemma categorize_keeps_inputs:
  "resume (snd (categorize_skill U item st)) = resume (snd st) \<and>
   analyzed_jobs (snd (categorize_skill U item st)) = analyzed_jobs (snd st)"
  by (cases st; cases item)
     (simp add: categorize_skill_def add_matching_skill_def add_missing_skill_def
           split: option.splits)

lemma categorize_fold_keeps_inputs:
  "resume (snd (fold (categorize_skill U) d st)) = resume (snd st) \<and>
   analyzed_jobs (snd (fold (categorize_skill U) d st)) = analyzed_jobs (snd st)"
  by (induction d arbitrary: st) (simp_all add: categorize_keeps_inputs)

text \<open>
  Claim C9. The gap identifier does not change its inputs: whatever the store, the resume
  and the jobs, every object that existed before the call (so every skill of the resume
  and of the jobs, with its name, category, technical flag and frequency) is the same
  after it, and the result still refers to the resume and the jobs it was given. The
  objects the call creates and updates are new ones, at addresses beyond the old store.
\<close>

theorem identify_skill_gaps_frame:
  "case identify_skill_gaps h r jobs (new_AnalysisResult r jobs) of
     (h', res) \<Rightarrow> length h \<le> length h' \<and> take (length h) h' = h \<and>
                  resume res = r \<and> analyzed_jobs res = jobs"
proof -
  obtain h1 d where c: "collect_job_skills h jobs = (h1, d)"
    by (cases "collect_job_skills h jobs")
  let ?U = "set (map (name_lower h1) (skills r))"
  let ?st = "fold (categorize_skill ?U) d (h1, new_AnalysisResult r jobs)"
  from frame_inv_collect [of h jobs] c
  have f1: "length h \<le> length h1" "take (length h) h1 = h" "\<forall>a\<in>snd ` set d. length h \<le> a"
    by (simp_all add: frame_inv_def)
  then have "result_frame_inv h (h1, new_AnalysisResult r jobs)"
    by (simp add: result_frame_inv_def new_AnalysisResult_def)
  from result_frame_inv_fold [OF this f1(3)]
  have "result_frame_inv h ?st" .
  moreover have "resume (snd ?st) = r \<and> analyzed_jobs (snd ?st) = jobs"
    using categorize_fold_keeps_inputs [of ?U d "(h1, new_AnalysisResult r jobs)"]
    by (simp add: new_AnalysisResult_def)
  moreover have "identify_skill_gaps h r jobs (new_AnalysisResult r jobs) = ?st"
    by (simp add: identify_skill_gaps_def c)
  ultimately show ?thesis
    by (cases ?st) (simp add: result_frame_inv_def)
qed

subsection \<open>The aggregation loop\<close>

lemma nth_of_take: "take n h = h0 \<Longrightarrow> i < n \<Longrightarrow> h ! i = h0 ! i"
  by (metis nth_take)

lemma name_lower_append_old: "a < length h \<Longrightarrow> name_lower (h @ [s]) a = name_lower h a"
  by (simp add: name_lower_def nth_append)

lemma name_lower_append_new: "name_lower (h @ [s]) (length h) = lower (name s)"
  by (simp add: name_lower_def)

lemma agg_inv_aggregate:
  assumes inv: "agg_inv h0 st" and v: "skill < length h0" and n: "normalized (name (h0 ! skill))"
  shows "agg_inv h0 (aggregate_skill skill st) \<and>
         fst ` set (snd (aggregate_skill skill st)) = insert (name_lower h0 skill) (fst ` set (snd st))"
proof -
  obtain h d where st: "st = (h, d)" by (cases st)
  from inv st have len: "length h0 \<le> length h" and tk: "take (length h0) h = h0"
    and dk: "\<forall>(k, a)\<in>set d. length h0 \<le> a \<and> a < length h \<and> name_lower h a = k"
    and dd: "distinct (map fst d)"
    by (auto simp: agg_inv_def)
  have same: "h ! skill = h0 ! skill" using tk v by (rule nth_of_take)
  then have nl: "name_lower h skill = name_lower h0 skill" by (simp add: name_lower_def)
  show ?thesis
  proof (cases "map_of d (name_lower h skill)")
    case None
    then have notin: "name_lower h0 skill \<notin> fst ` set d"
      using nl by (simp add: map_of_eq_None_iff)
    let ?s = "\<lparr>name = name (h0 ! skill), category = category (h0 ! skill),
               is_technical = is_technical (h0 ! skill), frequency = 1\<rparr>"
    have eq: "aggregate_skill skill st = (h @ [?s], d @ [(name_lower h0 skill, length h)])"
      using None n nl same by (simp add: aggregate_skill_def st new_Skill_def Skill_init_def normalized_def)
    have "agg_inv h0 (h @ [?s], d @ [(name_lower h0 skill, length h)])"
      using len tk dk dd notin
      by (auto simp: agg_inv_def name_lower_append_old name_lower_append_new)
         (simp add: name_lower_def)
    then show ?thesis using eq st by simp
  next
    case (Some a)
    then have mem: "(name_lower h0 skill, a) \<in> set d" using nl by (auto dest: map_of_SomeD)
    have eq: "aggregate_skill skill st = (increment_frequency h a, d)"
      using Some by (simp add: aggregate_skill_def st)
    from mem dk have "length h0 \<le> a" by auto
    then have "agg_inv h0 (increment_frequency h a, d)"
      using len tk dk dd by (auto simp: agg_inv_def take_increment)
    moreover have "insert (name_lower h0 skill) (fst ` set d) = fst ` set d"
      using mem by force
    ultimately show ?thesis using eq st by simp
  qed
qed

lemma agg_inv_fold:
  assumes "agg_inv h0 st" and "skill_objects h0 (set xs)"
  shows "agg_inv h0 (fold aggregate_skill xs st) \<and>
         fst ` set (snd (fold aggregate_skill xs st)) = name_lower h0 ` set xs \<union> fst ` set (snd st)"
  using assms
proof (induction xs arbitrary: st)
  case Nil
  then show ?case by simp
next
  case (Cons x xs)
  from Cons.prems have s: "agg_inv h0 (aggregate_skill x st)"
    and k: "fst ` set (snd (aggregate_skill x st)) = insert (name_lower h0 x) (fst ` set (snd st))"
    and r: "skill_objects h0 (set xs)"
    using agg_inv_aggregate [of h0 st x] by (simp_all add: skill_objects_def)
  from Cons.IH [OF s r] k show ?case by auto
qed

lemma agg_inv_jobs:
  assumes "agg_inv h0 st" and "skill_objects h0 (required_addrs jobs)"
  shows "agg_inv h0 (fold (\<lambda>job st. fold aggregate_skill (required_skills job) st) jobs st) \<and>
         fst ` set (snd (fold (\<lambda>job st. fold aggregate_skill (required_skills job) st) jobs st))
           = name_lower h0 ` required_addrs jobs \<union> fst ` set (snd st)"
  using assms
proof (induction jobs arbitrary: st)
  case Nil
  then show ?case by (simp add: required_addrs_def)
next
  case (Cons j jobs)
  let ?st = "fold aggregate_skill (required_skills j) st"
  from Cons.prems have a: "skill_objects h0 (set (required_skills j))"
    and b: "skill_objects h0 (required_addrs jobs)"
    by (auto simp: required_addrs_def skill_objects_def)
  from agg_inv_fold [OF Cons.prems(1) a]
  have s: "agg_inv h0 ?st"
    and k: "fst ` set (snd ?st) = name_lower h0 ` set (required_skills j) \<union> fst ` set (snd st)"
    by simp_all
  from Cons.IH [OF s b] k show ?case by (auto simp: required_addrs_def)
qed

lemma collect_job_skills_inv:
  assumes "skill_objects h (required_addrs jobs)"
  shows "agg_inv h (collect_job_skills h jobs)"
    and "fst ` set (snd (collect_job_skills h jobs)) = name_lower h ` required_addrs jobs"
proof -
  have "agg_inv h (h, [])" by (simp add: agg_inv_def)
  from agg_inv_jobs [OF this assms] show "agg_inv h (collect_job_skills h jobs)"
    and "fst ` set (snd (collect_job_skills h jobs)) = name_lower h ` required_addrs jobs"
    by (simp_all add: collect_job_skills_def)
qed

subsection \<open>The categorisation loop\<close>

lemma categorize_fold:
  assumes "distinct (map fst d)"
    and "\<forall>(k, a)\<in>set d. name_lower h a = k"
    and "\<forall>s\<in>set (matching_skills res) \<union> set (missing_skills res). name_lower h s \<notin> fst ` set d"
  shows "fold (categorize_skill U) d (h, res) =
           (fold (\<lambda>a h. set_frequency h a 1) (map snd (filter (\<lambda>(k, a). k \<notin> U) d)) h,
            res\<lparr>matching_skills := matching_skills res @ map snd (filter (\<lambda>(k, a). k \<in> U) d),
                missing_skills := missing_skills res @ map snd (filter (\<lambda>(k, a). k \<notin> U) d)\<rparr>)"
  using assms
proof (induction d arbitrary: h res)
  case Nil
  then show ?case by simp
next
  case (Cons p d)
  obtain k a where p: "p = (k, a)" by (cases p)
  from Cons.prems p have ka: "name_lower h a = k" and kd: "k \<notin> fst ` set d"
    and dd: "distinct (map fst d)" and nd: "\<forall>(k, a)\<in>set d. name_lower h a = k"
    by auto
  from Cons.prems p have old: "\<forall>s\<in>set (matching_skills res) \<union> set (missing_skills res).
      name_lower h s \<noteq> k \<and> name_lower h s \<notin> fst ` set d"
    by auto
  show ?case
  proof (cases "k \<in> U")
    case True
    have nm: "\<not> list_ex (\<lambda>s. matches h s a) (matching_skills res)"
      using old ka by (auto simp: list_ex_iff matches_def)
    let ?res = "res\<lparr>matching_skills := matching_skills res @ [a]\<rparr>"
    have step: "categorize_skill U p (h, res) = (h, ?res)"
      using True nm by (simp add: categorize_skill_def p add_matching_skill_def)
    have "fold (categorize_skill U) d (h, ?res) =
       (fold (\<lambda>a h. set_frequency h a 1) (map snd (filter (\<lambda>(k, a). k \<notin> U) d)) h,
            ?res\<lparr>matching_skills := matching_skills ?res @ map snd (filter (\<lambda>(k, a). k \<in> U) d),
                missing_skills := missing_skills ?res @ map snd (filter (\<lambda>(k, a). k \<notin> U) d)\<rparr>)"
      using dd nd old ka kd by (intro Cons.IH) auto
    then show ?thesis using True step by (simp add: p)
  next
    case False
    have nm: "increment_first_match h (missing_skills res) a = None"
      using old ka by (auto simp: increment_first_match_None matches_def)
    let ?res = "res\<lparr>missing_skills := missing_skills res @ [a]\<rparr>"
    let ?h = "set_frequency h a 1"
    have step: "categorize_skill U p (h, res) = (?h, ?res)"
      using False nm by (simp add: categorize_skill_def p add_missing_skill_def)
    have "fold (categorize_skill U) d (?h, ?res) =
       (fold (\<lambda>a h. set_frequency h a 1) (map snd (filter (\<lambda>(k, a). k \<notin> U) d)) ?h,
            ?res\<lparr>matching_skills := matching_skills ?res @ map snd (filter (\<lambda>(k, a). k \<in> U) d),
                missing_skills := missing_skills ?res @ map snd (filter (\<lambda>(k, a). k \<notin> U) d)\<rparr>)"
      using dd nd old ka kd by (intro Cons.IH) auto
    then show ?thesis using False step by (simp add: p)
  qed
qed

lemma name_lower_fold_set_frequency [simp]:
  "name_lower (fold (\<lambda>a h. set_frequency h a f) xs h) b = name_lower h b"
  by (induction xs arbitrary: h) simp_all

lemma length_fold_set_frequency [simp]:
  "length (fold (\<lambda>a h. set_frequency h a f) xs h) = length h"
  by (induction xs arbitrary: h) simp_all

lemma frequency_set_frequency_same:
  "a < length h \<Longrightarrow> frequency (set_frequency h a f ! a) = f"
  by (simp add: set_frequency_def)

lemma nth_set_frequency_other: "a \<noteq> b \<Longrightarrow> set_frequency h a f ! b = h ! b"
  by (simp add: set_frequency_def)

lemma frequency_fold_set_frequency:
  "a \<in> set xs \<Longrightarrow> a < length h \<Longrightarrow> frequency (fold (\<lambda>a h. set_frequency h a f) xs h ! a) = f"
proof (induction xs arbitrary: h rule: rev_induct)
  case Nil
  then show ?case by simp
next
  case (snoc x xs)
  show ?case
  proof (cases "a = x")
    case True
    then show ?thesis using snoc.prems by (simp add: frequency_set_frequency_same)
  next
    case False
    then show ?thesis using snoc by (simp add: nth_set_frequency_other)
  qed
qed

text \<open>What the identifier returns, in terms of the dictionary of the first loop.\<close>

lemma identify_skill_gaps_result:
  assumes wf: "skill_objects h (set (skills r) \<union> required_addrs jobs)"
    and c: "collect_job_skills h jobs = (h1, d)"
  shows "identify_skill_gaps h r jobs (new_AnalysisResult r jobs) =
           (fold (\<lambda>a h. set_frequency h a 1)
              (map snd (filter (\<lambda>(k, a). k \<notin> name_lower h ` set (skills r)) d)) h1,
            (new_AnalysisResult r jobs)
              \<lparr>matching_skills := map snd (filter (\<lambda>(k, a). k \<in> name_lower h ` set (skills r)) d),
               missing_skills := map snd (filter (\<lambda>(k, a). k \<notin> name_lower h ` set (skills r)) d)\<rparr>)"
proof -
  from wf have wj: "skill_objects h (required_addrs jobs)"
    and wr: "\<forall>a\<in>set (skills r). a < length h"
    by (auto simp: skill_objects_def)
  from collect_job_skills_inv(1) [OF wj] c
  have tk: "take (length h) h1 = h"
    and dk: "\<forall>(k, a)\<in>set d. name_lower h1 a = k" and dd: "distinct (map fst d)"
    by (auto simp: agg_inv_def)
  have "\<forall>a\<in>set (skills r). name_lower h1 a = name_lower h a"
    using wr nth_of_take [OF tk] by (simp add: name_lower_def)
  then have U: "set (map (name_lower h1) (skills r)) = name_lower h ` set (skills r)"
    by auto
  have "fold (categorize_skill (name_lower h ` set (skills r))) d (h1, new_AnalysisResult r jobs) =
        (fold (\<lambda>a h. set_frequency h a 1)
              (map snd (filter (\<lambda>(k, a). k \<notin> name_lower h ` set (skills r)) d)) h1,
            (new_AnalysisResult r jobs)
              \<lparr>matching_skills := matching_skills (new_AnalysisResult r jobs) @ map snd (filter (\<lambda>(k, a). k \<in> name_lower h ` set (skills r)) d),
               missing_skills := missing_skills (new_AnalysisResult r jobs) @ map snd (filter (\<lambda>(k, a). k \<notin> name_lower h ` set (skills r)) d)\<rparr>)"
    using dd dk by (intro categorize_fold) (simp_all add: new_AnalysisResult_def)
  then show ?thesis
    using U by (simp add: identify_skill_gaps_def c new_AnalysisResult_def)
qed

lemma map_name_lower_filter:
  assumes "\<forall>(k, a)\<in>set d. name_lower h a = k"
  shows "map (name_lower h) (map snd (filter (\<lambda>(k, a). P k) d)) = filter P (map fst d)"
  using assms by (induction d) auto

lemma distinct_filter_partition:
  "distinct xs \<Longrightarrow> distinct (filter P xs @ filter (\<lambda>x. \<not> P x) xs)"
  by (induction xs) auto

text \<open>
  Claim C2. For a resume and jobs whose skills are objects built by the constructor, the
  two lists that the gap identifier fills in a fresh result partition the lowercased names
  of the skills required by the jobs: no name occurs twice in the concatenation of the
  two lists (so none occurs in both, and none twice in one), and the names of the two
  lists together are exactly the required names. The matching list holds the required
  names that the resume has, the missing list the others.
\<close>

theorem identify_skill_gaps_partition:
  assumes "skill_objects h (set (skills r) \<union> required_addrs jobs)"
  shows "case identify_skill_gaps h r jobs (new_AnalysisResult r jobs) of
           (h', res) \<Rightarrow>
             distinct (map (name_lower h') (matching_skills res) @
                       map (name_lower h') (missing_skills res)) \<and>
             set (map (name_lower h') (matching_skills res)) \<union>
             set (map (name_lower h') (missing_skills res)) = name_lower h ` required_addrs jobs \<and>
             set (map (name_lower h') (matching_skills res)) =
               name_lower h ` required_addrs jobs \<inter> name_lower h ` set (skills r) \<and>
             set (map (name_lower h') (missing_skills res)) =
               name_lower h ` required_addrs jobs - name_lower h ` set (skills r)"
proof -
  obtain h1 d where c: "collect_job_skills h jobs = (h1, d)"
    by (cases "collect_job_skills h jobs")
  from assms have wj: "skill_objects h (required_addrs jobs)"
    by (auto simp: skill_objects_def)
  from collect_job_skills_inv [OF wj] c
  have dk: "\<forall>(k, a)\<in>set d. name_lower h1 a = k" and dd: "distinct (map fst d)"
    and keys: "fst ` set d = name_lower h ` required_addrs jobs"
    by (auto simp: agg_inv_def)
  let ?U = "name_lower h ` set (skills r)"
  let ?ms = "map snd (filter (\<lambda>(k, a). k \<notin> ?U) d)"
  let ?h' = "fold (\<lambda>a h. set_frequency h a 1) ?ms h1"
  have dk': "\<forall>(k, a)\<in>set d. name_lower ?h' a = k"
    using dk by simp
  have m: "map (name_lower ?h') (map snd (filter (\<lambda>(k, a). k \<in> ?U) d)) =
           filter (\<lambda>k. k \<in> ?U) (map fst d)"
    by (rule map_name_lower_filter [OF dk'])
  have x: "map (name_lower ?h') ?ms = filter (\<lambda>k. k \<notin> ?U) (map fst d)"
    by (rule map_name_lower_filter [OF dk'])
  have d1: "distinct (filter (\<lambda>k. k \<in> ?U) (map fst d) @ filter (\<lambda>k. k \<notin> ?U) (map fst d))"
    using distinct_filter_partition [OF dd] .
  have s1: "set (filter (\<lambda>k. k \<in> ?U) (map fst d)) = name_lower h ` required_addrs jobs \<inter> ?U"
    using keys by auto
  have s2: "set (filter (\<lambda>k. k \<notin> ?U) (map fst d)) = name_lower h ` required_addrs jobs - ?U"
    using keys by auto
  let ?res = "(new_AnalysisResult r jobs)
      \<lparr>matching_skills := map snd (filter (\<lambda>(k, a). k \<in> ?U) d), missing_skills := ?ms\<rparr>"
  have eq: "identify_skill_gaps h r jobs (new_AnalysisResult r jobs) = (?h', ?res)"
    by (rule identify_skill_gaps_result [OF assms c])
  have A: "map (name_lower ?h') (matching_skills ?res) = filter (\<lambda>k. k \<in> ?U) (map fst d)"
    using m by simp
  have B: "map (name_lower ?h') (missing_skills ?res) = filter (\<lambda>k. k \<notin> ?U) (map fst d)"
    using x by simp
  have s3: "set (filter (\<lambda>k. k \<in> ?U) (map fst d)) \<union> set (filter (\<lambda>k. k \<notin> ?U) (map fst d))
            = name_lower h ` required_addrs jobs"
    using keys by auto
  show ?thesis
    unfolding eq prod.case A B using d1 s1 s2 s3 by (intro conjI)
qed

theorem identify_skill_gaps_partition_witness:
  "skill_objects example_store (set (skills example_resume) \<union> required_addrs example_jobs) \<and>
   (case identify_skill_gaps example_store example_resume example_jobs
           (new_AnalysisResult example_resume example_jobs) of
      (h', res) \<Rightarrow>
        distinct (map (name_lower h') (matching_skills res) @
                  map (name_lower h') (missing_skills res)) \<and>
        set (map (name_lower h') (matching_skills res)) \<union>
        set (map (name_lower h') (missing_skills res)) =
          name_lower example_store ` required_addrs example_jobs \<and>
        set (map (name_lower h') (matching_skills res)) =
          name_lower example_store ` required_addrs example_jobs \<inter>
          name_lower example_store ` set (skills example_resume) \<and>
        set (map (name_lower h') (missing_skills res)) =
          name_lower example_store ` required_addrs example_jobs -
          name_lower example_store ` set (skills example_resume))"
proof -
  have a: "skill_objects example_store (set (skills example_resume) \<union> required_addrs example_jobs)"
    by code_simp
  from a identify_skill_gaps_partition [OF a] show ?thesis
    by (rule conjI)
qed

text \<open>
  In a fresh result every missing skill ends with frequency 1, whatever the number of jobs
  that require it: \<open>add_missing_skill\<close> overwrites the frequency of the aggregate it
  appends.
\<close>

lemma missing_skills_frequency_one:
  assumes wf: "skill_objects h (set (skills r) \<union> required_addrs jobs)"
    and i: "identify_skill_gaps h r jobs (new_AnalysisResult r jobs) = (h', res)"
    and a: "a \<in> set (missing_skills res)"
  shows "frequency (h' ! a) = 1"
proof -
  obtain h1 d where c: "collect_job_skills h jobs = (h1, d)"
    by (cases "collect_job_skills h jobs")
  from wf have wj: "skill_objects h (required_addrs jobs)"
    by (auto simp: skill_objects_def)
  from collect_job_skills_inv(1) [OF wj] c
  have v: "\<forall>(k, a)\<in>set d. a < length h1"
    by (auto simp: agg_inv_def)
  let ?ms = "map snd (filter (\<lambda>(k, a). k \<notin> name_lower h ` set (skills r)) d)"
  from identify_skill_gaps_result [OF wf c] i
  have h': "h' = fold (\<lambda>a h. set_frequency h a 1) ?ms h1" and m: "missing_skills res = ?ms"
    by auto
  from a m v have "a \<in> set ?ms" and "a < length h1" by auto
  then show ?thesis unfolding h' by (rule frequency_fold_set_frequency)
qed

text \<open>
  Claim C1. On the example of the specification (resume skills Python, SQL and Git, Job1
  requiring Python and Docker, Job2 requiring SQL and Docker) the claim expects the
  missing skill Docker with frequency 2, the number of jobs requiring it. The code returns
  Docker as the only missing skill, with frequency 1.
\<close>

theorem identify_skill_gaps_example_missing:
  "(case identify_skill_gaps example_store example_resume example_jobs
           (new_AnalysisResult example_resume example_jobs) of
      (h', res) \<Rightarrow> map (\<lambda>a. (name (h' ! a), frequency (h' ! a))) (missing_skills res))
   = [(''Docker'', 1)]"
  by code_simp

section \<open>Adding skills to a resume, a job or a result\<close>

lemma increment_first_match_unique:
  assumes "a \<in> set xs" and "matches h a b" and "deduplicated h xs"
  shows "increment_first_match h xs b = Some (increment_frequency h a)"
  using assms
proof (induction xs)
  case Nil
  then show ?case by simp
next
  case (Cons e xs)
  show ?case
  proof (cases "e = a")
    case True
    then show ?thesis using Cons.prems by simp
  next
    case False
    with Cons.prems have ax: "a \<in> set xs" and dd: "deduplicated h xs"
      and ne: "name_lower h e \<notin> name_lower h ` set xs"
      by (auto simp: deduplicated_def)
    from ne ax have "name_lower h e \<noteq> name_lower h a" by auto
    then have "\<not> matches h e b" using Cons.prems(2) by (simp add: matches_def)
    then show ?thesis using Cons.IH [OF ax Cons.prems(2) dd] by simp
  qed
qed

lemma frequency_increment:
  "a < length h \<Longrightarrow> frequency (increment_frequency h a ! a) = frequency (h ! a) + 1"
  by (simp add: increment_frequency_def frequency_set_frequency_same)

text \<open>
  Claim C3. Take a resume (or a job) whose skill collection is deduplicated, as the data
  model has it and as \<open>add_skill\<close> keeps it (lemmas \<open>add_skill_keeps_deduplicated\<close> and
  \<open>add_required_skill_keeps_deduplicated\<close> below). Adding a skill \<open>b\<close> whose lowercased
  name is that of an entry \<open>a\<close> of the collection increments the frequency of \<open>a\<close> by 1,
  changes no other object and leaves the collection, so its number of entries, as it was.
  Adding a skill whose lowercased name is that of no entry appends it and changes no
  object.
\<close>

theorem add_skill_same_name:
  "(a \<in> set (skills r) \<and> a < length h \<and> name_lower h a = name_lower h b \<and>
    deduplicated h (skills r) \<longrightarrow>
      add_skill h r b = (increment_frequency h a, r) \<and>
      frequency (fst (add_skill h r b) ! a) = frequency (h ! a) + 1 \<and>
      length (skills (snd (add_skill h r b))) = length (skills r)) \<and>
   (a \<in> set (required_skills j) \<and> a < length h \<and> name_lower h a = name_lower h b \<and>
    deduplicated h (required_skills j) \<longrightarrow>
      add_required_skill h j b = (increment_frequency h a, j) \<and>
      frequency (fst (add_required_skill h j b) ! a) = frequency (h ! a) + 1 \<and>
      length (required_skills (snd (add_required_skill h j b))) = length (required_skills j)) \<and>
   ((\<forall>e\<in>set (skills r). name_lower h e \<noteq> name_lower h b) \<longrightarrow>
      add_skill h r b = (h, r\<lparr>skills := skills r @ [b]\<rparr>)) \<and>
   ((\<forall>e\<in>set (required_skills j). name_lower h e \<noteq> name_lower h b) \<longrightarrow>
      add_required_skill h j b = (h, j\<lparr>required_skills := required_skills j @ [b]\<rparr>))"
proof (intro conjI impI)
  assume "a \<in> set (skills r) \<and> a < length h \<and> name_lower h a = name_lower h b \<and>
    deduplicated h (skills r)"
  then have "increment_first_match h (skills r) b = Some (increment_frequency h a)"
    and "a < length h"
    by (simp_all add: increment_first_match_unique matches_def)
  then show "add_skill h r b = (increment_frequency h a, r)"
    and "frequency (fst (add_skill h r b) ! a) = frequency (h ! a) + 1"
    and "length (skills (snd (add_skill h r b))) = length (skills r)"
    by (simp_all add: add_skill_def frequency_increment)
next
  assume "a \<in> set (required_skills j) \<and> a < length h \<and> name_lower h a = name_lower h b \<and>
    deduplicated h (required_skills j)"
  then have "increment_first_match h (required_skills j) b = Some (increment_frequency h a)"
    and "a < length h"
    by (simp_all add: increment_first_match_unique matches_def)
  then show "add_required_skill h j b = (increment_frequency h a, j)"
    and "frequency (fst (add_required_skill h j b) ! a) = frequency (h ! a) + 1"
    and "length (required_skills (snd (add_required_skill h j b))) = length (required_skills j)"
    by (simp_all add: add_required_skill_def frequency_increment)
next
  assume "\<forall>e\<in>set (skills r). name_lower h e \<noteq> name_lower h b"
  then have "increment_first_match h (skills r) b = None"
    by (simp add: increment_first_match_None matches_def)
  then show "add_skill h r b = (h, r\<lparr>skills := skills r @ [b]\<rparr>)"
    by (simp add: add_skill_def)
next
  assume "\<forall>e\<in>set (required_skills j). name_lower h e \<noteq> name_lower h b"
  then have "increment_first_match h (required_skills j) b = None"
    by (simp add: increment_first_match_None matches_def)
  then show "add_required_skill h j b = (h, j\<lparr>required_skills := required_skills j @ [b]\<rparr>)"
    by (simp add: add_required_skill_def)
qed

theorem add_skill_same_name_witness:
  "add_skill example_store example_resume 3 = (increment_frequency example_store 0, example_resume) \<and>
   frequency (fst (add_skill example_store example_resume 3) ! 0) = frequency (example_store ! 0) + 1 \<and>
   add_required_skill example_store (example_job ''Job1'' [3, 4]) 0 =
     (increment_frequency example_store 3, example_job ''Job1'' [3, 4]) \<and>
   add_skill example_store example_resume 4 =
     (example_store, example_resume\<lparr>skills := skills example_resume @ [4]\<rparr>) \<and>
   add_required_skill example_store (example_job ''Job1'' [3, 4]) 1 =
     (example_store, (example_job ''Job1'' [3, 4])\<lparr>required_skills := [3, 4] @ [1]\<rparr>)"
proof -
  let ?j = "example_job ''Job1'' [3, 4]"
  have 1: "0 \<in> set (skills example_resume) \<and> 0 < length example_store \<and>
           name_lower example_store 0 = name_lower example_store 3 \<and>
           deduplicated example_store (skills example_resume)"
    by code_simp
  have 2: "3 \<in> set (required_skills ?j) \<and> 3 < length example_store \<and>
           name_lower example_store 3 = name_lower example_store 0 \<and>
           deduplicated example_store (required_skills ?j)"
    by code_simp
  have 3: "\<forall>e\<in>set (skills example_resume). name_lower example_store e \<noteq> name_lower example_store 4"
    by code_simp
  have 4: "\<forall>e\<in>set (required_skills ?j). name_lower example_store e \<noteq> name_lower example_store 1"
    by code_simp
  have j: "required_skills ?j = [3, 4]" by (simp add: example_job_def)
  from 1 add_skill_same_name [of 0 example_resume example_store 3]
  have a: "add_skill example_store example_resume 3 = (increment_frequency example_store 0, example_resume)"
    and b: "frequency (fst (add_skill example_store example_resume 3) ! 0) = frequency (example_store ! 0) + 1"
    by blast+
  from 2 add_skill_same_name [of 3 _ example_store 0 ?j]
  have c: "add_required_skill example_store ?j 0 = (increment_frequency example_store 3, ?j)"
    by blast
  from 3 add_skill_same_name [of _ example_resume example_store 4]
  have d: "add_skill example_store example_resume 4 =
     (example_store, example_resume\<lparr>skills := skills example_resume @ [4]\<rparr>)"
    by blast
  from 4 add_skill_same_name [of _ _ example_store 1 ?j]
  have e: "add_required_skill example_store ?j 1 =
     (example_store, ?j\<lparr>required_skills := required_skills ?j @ [1]\<rparr>)"
    by blast
  from a b c d e j show ?thesis by simp
qed

lemma name_lower_increment_fun: "name_lower (increment_frequency h e) = name_lower h"
  by (rule ext) simp

lemma add_skill_keeps_deduplicated:
  assumes "deduplicated h (skills r)"
  shows "deduplicated (fst (add_skill h r b)) (skills (snd (add_skill h r b)))"
proof (cases "increment_first_match h (skills r) b")
  case None
  then have "\<forall>e\<in>set (skills r). name_lower h e \<noteq> name_lower h b"
    by (simp add: increment_first_match_None matches_def)
  then show ?thesis using assms None
    by (auto simp: add_skill_def deduplicated_def)
next
  case (Some h')
  then obtain e where "h' = increment_frequency h e"
    by (auto dest: increment_first_match_Some)
  then show ?thesis using assms Some
    by (simp add: add_skill_def deduplicated_def name_lower_increment_fun)
qed

lemma add_required_skill_keeps_deduplicated:
  assumes "deduplicated h (required_skills j)"
  shows "deduplicated (fst (add_required_skill h j b)) (required_skills (snd (add_required_skill h j b)))"
proof (cases "increment_first_match h (required_skills j) b")
  case None
  then have "\<forall>e\<in>set (required_skills j). name_lower h e \<noteq> name_lower h b"
    by (simp add: increment_first_match_None matches_def)
  then show ?thesis using assms None
    by (auto simp: add_required_skill_def deduplicated_def)
next
  case (Some h')
  then obtain e where "h' = increment_frequency h e"
    by (auto dest: increment_first_match_Some)
  then show ?thesis using assms Some
    by (simp add: add_required_skill_def deduplicated_def name_lower_increment_fun)
qed


lemma increment_frequency_changes:
  "e < length h \<Longrightarrow> increment_frequency h e \<noteq> h"
proof
  assume "e < length h" and "increment_frequency h e = h"
  then have "frequency (increment_frequency h e ! e) = frequency (h ! e)" by simp
  with \<open>e < length h\<close> show False by (simp add: frequency_increment)
qed

lemma increment_first_match_changes:
  assumes "\<exists>s\<in>set xs. matches h s skill" and "\<forall>s\<in>set xs. s < length h"
  shows "\<exists>h'. increment_first_match h xs skill = Some h' \<and> h' \<noteq> h"
proof -
  from assms(1) have "increment_first_match h xs skill \<noteq> None"
    by (simp add: increment_first_match_None)
  then obtain h' where s: "increment_first_match h xs skill = Some h'" by auto
  then obtain e where "e \<in> set xs" and "h' = increment_frequency h e"
    by (auto dest: increment_first_match_Some)
  with assms(2) have "h' \<noteq> h" by (simp add: increment_frequency_changes)
  with s show ?thesis by simp
qed

text \<open>
  Claim C10. Adding to the matching skills a skill whose lowercased name is that of a
  matching skill already present changes nothing: the result and the store, so every
  frequency, are as before. In the same situation \<open>add_missing_skill\<close> and
  \<open>Resume.add_skill\<close> do change the store, since they increment a frequency.
\<close>

theorem add_matching_skill_duplicate_noop:
  "((\<exists>s\<in>set (matching_skills res). name_lower h s = name_lower h skill) \<longrightarrow>
      add_matching_skill h res skill = (h, res)) \<and>
   ((\<exists>s\<in>set (missing_skills res). name_lower h s = name_lower h skill) \<and>
    (\<forall>s\<in>set (missing_skills res). s < length h) \<longrightarrow>
      fst (add_missing_skill h res skill) \<noteq> h \<and>
      snd (add_missing_skill h res skill) = res) \<and>
   ((\<exists>s\<in>set (skills r). name_lower h s = name_lower h skill) \<and>
    (\<forall>s\<in>set (skills r). s < length h) \<longrightarrow>
      fst (add_skill h r skill) \<noteq> h \<and> snd (add_skill h r skill) = r)"
proof (intro conjI impI)
  assume "\<exists>s\<in>set (matching_skills res). name_lower h s = name_lower h skill"
  then show "add_matching_skill h res skill = (h, res)"
    by (auto simp: add_matching_skill_def list_ex_iff matches_def)
next
  assume "(\<exists>s\<in>set (missing_skills res). name_lower h s = name_lower h skill) \<and>
    (\<forall>s\<in>set (missing_skills res). s < length h)"
  then have "\<exists>h'. increment_first_match h (missing_skills res) skill = Some h' \<and> h' \<noteq> h"
    by (intro increment_first_match_changes) (simp_all add: matches_def)
  then show "fst (add_missing_skill h res skill) \<noteq> h"
    and "snd (add_missing_skill h res skill) = res"
    by (auto simp: add_missing_skill_def)
next
  assume "(\<exists>s\<in>set (skills r). name_lower h s = name_lower h skill) \<and>
    (\<forall>s\<in>set (skills r). s < length h)"
  then have "\<exists>h'. increment_first_match h (skills r) skill = Some h' \<and> h' \<noteq> h"
    by (intro increment_first_match_changes) (simp_all add: matches_def)
  then show "fst (add_skill h r skill) \<noteq> h" and "snd (add_skill h r skill) = r"
    by (auto simp: add_skill_def)
qed

theorem add_matching_skill_duplicate_noop_witness:
  "add_matching_skill example_store example_result 3 = (example_store, example_result) \<and>
   fst (add_missing_skill example_store example_result 6) \<noteq> example_store \<and>
   fst (add_skill example_store example_resume 3) \<noteq> example_store"
proof -
  have 1: "\<exists>s\<in>set (matching_skills example_result).
             name_lower example_store s = name_lower example_store 3"
    by code_simp
  have 2: "(\<exists>s\<in>set (missing_skills example_result).
              name_lower example_store s = name_lower example_store 6) \<and>
           (\<forall>s\<in>set (missing_skills example_result). s < length example_store)"
    by code_simp
  have 3: "(\<exists>s\<in>set (skills example_resume).
              name_lower example_store s = name_lower example_store 3) \<and>
           (\<forall>s\<in>set (skills example_resume). s < length example_store)"
    by code_simp
  from 1 add_matching_skill_duplicate_noop [of example_result example_store 3]
  have a: "add_matching_skill example_store example_result 3 = (example_store, example_result)"
    by blast
  from 2 add_matching_skill_duplicate_noop [of example_result example_store 6]
  have b: "fst (add_missing_skill example_store example_result 6) \<noteq> example_store"
    by blast
  from 3 add_matching_skill_duplicate_noop [of _ example_store 3 example_resume]
  have c: "fst (add_skill example_store example_resume 3) \<noteq> example_store"
    by blast
  from a b c show ?thesis by simp
qed

section \<open>Vocabulary and overlap score: properties\<close>

lemma fold_add_name: "fold (add_name h) xs S = name_lower h ` set xs \<union> S"
  by (induction xs arbitrary: S) (auto simp: add_name_def)

lemma add_job_names_eq: "add_job_names h jobs S = name_lower h ` required_addrs jobs \<union> S"
  unfolding add_job_names_def
  by (induction jobs arbitrary: S) (auto simp: fold_add_name required_addrs_def)

lemma required_addrs_mset: "mset jobs = mset jobs' \<Longrightarrow> required_addrs jobs = required_addrs jobs'"
  using mset_eq_setD [of jobs jobs'] by (simp add: required_addrs_def)

lemma finite_required_names [simp]: "finite (required_names h jobs)"
  by (simp add: required_names_def required_addrs_def)

lemma finite_resume_names [simp]: "finite (resume_names h r)"
  by (simp add: resume_names_def)

lemma create_master_skill_list_eq:
  "create_master_skill_list h r jobs = sorted_list_of_set (resume_names h r \<union> required_names h jobs)"
  by (simp add: create_master_skill_list_def fold_add_name add_job_names_eq
      resume_names_def required_names_def Un_commute)

text \<open>
  Claim C8. The master vocabulary is the list, in ascending lexicographic order and
  without repetition, of the lowercased names of the skills of the resume and of the
  skills required by the jobs; a sorted list without repetition is determined by its set
  of elements, so the vocabulary is the same for every permutation of the job list.
\<close>

theorem create_master_skill_list_sorted_union:
  "sorted (create_master_skill_list h r jobs) \<and>
   distinct (create_master_skill_list h r jobs) \<and>
   set (create_master_skill_list h r jobs) = resume_names h r \<union> required_names h jobs \<and>
   (mset jobs = mset jobs' \<longrightarrow>
      create_master_skill_list h r jobs = create_master_skill_list h r jobs')"
proof (intro conjI impI)
  show "sorted (create_master_skill_list h r jobs)"
    and "distinct (create_master_skill_list h r jobs)"
    and "set (create_master_skill_list h r jobs) = resume_names h r \<union> required_names h jobs"
    by (simp_all add: create_master_skill_list_eq)
next
  assume "mset jobs = mset jobs'"
  then have "required_addrs jobs = required_addrs jobs'"
    by (rule required_addrs_mset)
  then have "required_names h jobs = required_names h jobs'"
    by (simp add: required_names_def)
  then show "create_master_skill_list h r jobs = create_master_skill_list h r jobs'"
    by (simp add: create_master_skill_list_eq)
qed

theorem create_master_skill_list_witness:
  "mset example_jobs = mset (rev example_jobs) \<and>
   create_master_skill_list example_store example_resume example_jobs =
     create_master_skill_list example_store example_resume (rev example_jobs) \<and>
   create_master_skill_list example_store example_resume example_jobs =
     [''docker'', ''git'', ''python'', ''sql'']"
proof -
  have m: "mset example_jobs = mset (rev example_jobs)" by simp
  have v: "create_master_skill_list example_store example_resume example_jobs =
     [''docker'', ''git'', ''python'', ''sql'']"
    by code_simp
  from m create_master_skill_list_sorted_union [of example_store example_resume example_jobs "rev example_jobs"]
  have p: "create_master_skill_list example_store example_resume example_jobs =
     create_master_skill_list example_store example_resume (rev example_jobs)"
    by blast
  from m p v show ?thesis by (intro conjI)
qed








section \<open>The learning plan: properties\<close>

lemma slice_empty_iff: "slice xs i j = [] \<longleftrightarrow> j \<le> i \<or> length xs \<le> i"
  by (auto simp: slice_def)

lemma period_skills_empty_iff:
  "0 < w \<Longrightarrow> period_skills xs w = [] \<longleftrightarrow> length xs \<le> 2 * (w - 1)"
  by (auto simp: period_skills_def slice_empty_iff)

lemma distribute_weeks_upt:
  assumes "0 < w"
  shows "distribute_weeks h xs sr [w ..< w + n] acc =
           acc @ map (planned_week h xs sr) [w ..< min (w + n) (Suc ((length xs + 1) div 2))]"
  using assms
proof (induction n arbitrary: w acc)
  case 0
  then show ?case by simp
next
  case (Suc n)
  have up: "[w ..< w + Suc n] = w # [Suc w ..< Suc w + n]"
    by (simp add: upt_conv_Cons)
  have sl: "slice xs ((w - 1) * skills_per_week) ((w - 1) * skills_per_week + skills_per_week)
            = period_skills xs w"
  proof -
    from Suc.prems have "(w - 1) * 2 + 2 = 2 * w" and "(w - 1) * 2 = 2 * (w - 1)" by simp_all
    then show ?thesis by (simp only: period_skills_def skills_per_week_def)
  qed
  have step: "distribute_weeks h xs sr [w ..< w + Suc n] acc =
      (if period_skills xs w = [] then acc
       else distribute_weeks h xs sr [Suc w ..< Suc w + n] (acc @ [planned_week h xs sr w]))"
    by (simp only: up distribute_weeks.simps Let_def sl planned_week_def)
  show ?case
  proof (cases "period_skills xs w = []")
    case True
    then have "length xs \<le> 2 * (w - 1)" using Suc.prems by (simp add: period_skills_empty_iff)
    then have "Suc ((length xs + 1) div 2) \<le> w" using Suc.prems by presburger
    then have e: "[w ..< min (w + Suc n) (Suc ((length xs + 1) div 2))] = []" by simp
    from True have r: "distribute_weeks h xs sr [w ..< w + Suc n] acc = acc"
      by (subst step) simp
    show ?thesis by (subst r, subst e) simp
  next
    case False
    then have "\<not> length xs \<le> 2 * (w - 1)" using Suc.prems by (simp add: period_skills_empty_iff)
    then have lt: "w < Suc ((length xs + 1) div 2)" using Suc.prems by presburger
    have m: "min (w + Suc n) (Suc ((length xs + 1) div 2)) =
             min (Suc w + n) (Suc ((length xs + 1) div 2))"
      by simp
    from lt have "w < min (Suc w + n) (Suc ((length xs + 1) div 2))" by simp
    then have "[w ..< min (Suc w + n) (Suc ((length xs + 1) div 2))] =
          w # [Suc w ..< min (Suc w + n) (Suc ((length xs + 1) div 2))]"
      by (rule upt_conv_Cons)
    then have e: "[w ..< min (w + Suc n) (Suc ((length xs + 1) div 2))] =
          w # [Suc w ..< min (Suc w + n) (Suc ((length xs + 1) div 2))]"
      by (simp only: m)
    have ih: "distribute_weeks h xs sr [Suc w ..< Suc w + n] (acc @ [planned_week h xs sr w]) =
        (acc @ [planned_week h xs sr w]) @
          map (planned_week h xs sr) [Suc w ..< min (Suc w + n) (Suc ((length xs + 1) div 2))]"
      by (rule Suc.IH) simp
    from False have r: "distribute_weeks h xs sr [w ..< w + Suc n] acc =
        distribute_weeks h xs sr [Suc w ..< Suc w + n] (acc @ [planned_week h xs sr w])"
      by (subst step) simp
    show ?thesis by (subst r, subst ih, subst e) simp
  qed
qed

lemma weeks_range: "[1, 2, 3, 4] = [1 ..< 1 + (4::nat)]"
  by (simp add: upt_rec)

lemma distribute_skills_across_weeks_eq:
  "distribute_skills_across_weeks h xs sr =
     map (planned_week h xs sr) [1 ..< Suc (min 4 ((length xs + 1) div 2))]"
proof -
  have "distribute_weeks h xs sr [1 ..< 1 + 4] [] =
        [] @ map (planned_week h xs sr) [1 ..< min (1 + 4) (Suc ((length xs + 1) div 2))]"
    by (rule distribute_weeks_upt) simp
  moreover have "min (1 + 4) (Suc ((length xs + 1) div 2)) = Suc (min 4 ((length xs + 1) div 2))"
    by simp
  ultimately show ?thesis
    by (simp only: distribute_skills_across_weeks_def weeks_range append_Nil)
qed

lemma length_slice: "length (slice xs i j) = min (j - i) (length xs - i)"
  by (simp add: slice_def)

lemma slice_take: "j \<le> n \<Longrightarrow> slice (take n xs) i j = slice xs i j"
  by (simp add: slice_def drop_take min_def)

lemma concat_period_skills:
  "concat (map (period_skills xs) [1 ..< Suc m]) = take (2 * m) xs"
proof (induction m)
  case 0
  then show ?case by simp
next
  case (Suc m)
  have "period_skills xs (Suc m) = take 2 (drop (2 * m) xs)"
    by (simp add: period_skills_def slice_def)
  moreover have "take (2 * m + 2) xs = take (2 * m) xs @ take 2 (drop (2 * m) xs)"
    by (rule take_add)
  ultimately show ?case using Suc.IH by simp
qed

lemma week_skills_planned [simp]:
  "week_skills (planned_week h xs sr w) = period_skills xs w"
  "week_number (planned_week h xs sr w) = w"
  by (simp_all add: planned_week_def week_entry_def)

text \<open>
  Claim C5. Whatever the list of missing skills, the structured plan holds only skills
  among the first 8, in their order: its periods, numbered from 1, are consecutive slices
  of 2 skills (period \<open>k + 1\<close> gets \<open>skills[2 k : 2 k + 2]\<close>), none of them is empty, and
  they stop when the skills are exhausted or after 4 periods, so that together they are
  the first 8 skills. With 3 missing skills there are 2 periods, of 2 skills and of 1
  skill; with 8 or more there are 4 periods of 2 skills.
\<close>

theorem weekly_plan_periods:
  "length (weekly_plan_of h ms sr) = min 4 ((length ms + 1) div 2) \<and>
   (\<forall>k < length (weekly_plan_of h ms sr).
      week_number (weekly_plan_of h ms sr ! k) = k + 1 \<and>
      week_skills (weekly_plan_of h ms sr ! k) = slice ms (2 * k) (2 * k + 2) \<and>
      week_skills (weekly_plan_of h ms sr ! k) \<noteq> []) \<and>
   concat (map week_skills (weekly_plan_of h ms sr)) = take 8 ms \<and>
   (length ms = 3 \<longrightarrow> map (\<lambda>w. length (week_skills w)) (weekly_plan_of h ms sr) = [2, 1]) \<and>
   (8 \<le> length ms \<longrightarrow>
      map (\<lambda>w. length (week_skills w)) (weekly_plan_of h ms sr) = [2, 2, 2, 2])"
proof -
  define xs where "xs = take 8 ms"
  define c where "c = min 4 ((length xs + 1) div 2)"
  have plan: "weekly_plan_of h ms sr = map (planned_week h xs sr) [1 ..< Suc c]"
    by (simp only: weekly_plan_of_def prioritize_skills_def distribute_skills_across_weeks_eq
        xs_def c_def)
  have lx: "length xs = min 8 (length ms)" by (simp add: xs_def min.commute)
  have c4: "c \<le> 4" by (simp add: c_def)
  have len: "length (weekly_plan_of h ms sr) = c" by (simp add: plan)
  have c_eq: "c = min 4 ((length ms + 1) div 2)"
    unfolding c_def lx by presburger
  have nth: "\<And>k. k < c \<Longrightarrow> weekly_plan_of h ms sr ! k = planned_week h xs sr (Suc k)"
    by (simp add: plan nth_map_upt del: upt_Suc)
  have per: "\<And>k. k < c \<Longrightarrow> period_skills xs (Suc k) = slice ms (2 * k) (2 * k + 2)"
  proof -
    fix k assume "k < c"
    with c4 have "2 * k + 2 \<le> 8" by simp
    then have "slice (take 8 ms) (2 * k) (2 * k + 2) = slice ms (2 * k) (2 * k + 2)"
      by (rule slice_take)
    then show "period_skills xs (Suc k) = slice ms (2 * k) (2 * k + 2)"
      by (simp add: period_skills_def xs_def)
  qed
  have ne: "\<And>k. k < c \<Longrightarrow> slice ms (2 * k) (2 * k + 2) \<noteq> []"
  proof -
    fix k assume "k < c"
    then have "2 * k < length ms" unfolding c_eq by presburger
    then show "slice ms (2 * k) (2 * k + 2) \<noteq> []" by (simp add: slice_empty_iff)
  qed
  have cc: "concat (map week_skills (weekly_plan_of h ms sr)) = take 8 ms"
  proof -
    have "concat (map week_skills (weekly_plan_of h ms sr)) =
          concat (map (period_skills xs) [1 ..< Suc c])"
      by (simp add: plan comp_def del: upt_Suc)
    also have "\<dots> = take (2 * c) xs" by (rule concat_period_skills)
    also have "\<dots> = xs"
    proof -
      have "length xs \<le> 2 * c" unfolding c_def lx by presburger
      then show ?thesis by simp
    qed
    finally show ?thesis by (simp add: xs_def)
  qed
  have lens: "map (\<lambda>w. length (week_skills w)) (weekly_plan_of h ms sr) =
              map (\<lambda>k. min 2 (length ms - 2 * k)) [0 ..< c]"
  proof (rule nth_equalityI)
    show "length (map (\<lambda>w. length (week_skills w)) (weekly_plan_of h ms sr)) =
          length (map (\<lambda>k. min 2 (length ms - 2 * k)) [0 ..< c])"
      by (simp add: len)
  next
    fix k assume "k < length (map (\<lambda>w. length (week_skills w)) (weekly_plan_of h ms sr))"
    then have k: "k < c" by (simp add: len)
    then show "map (\<lambda>w. length (week_skills w)) (weekly_plan_of h ms sr) ! k =
               map (\<lambda>k. min 2 (length ms - 2 * k)) [0 ..< c] ! k"
      by (simp add: len nth per length_slice)
  qed
  have three: "length ms = 3 \<longrightarrow>
      map (\<lambda>w. length (week_skills w)) (weekly_plan_of h ms sr) = [2, 1]"
  proof
    assume l: "length ms = 3"
    then have "c = 2" unfolding c_eq by simp
    then have "[0 ..< c] = [0, 1]" by (simp add: upt_rec)
    then show "map (\<lambda>w. length (week_skills w)) (weekly_plan_of h ms sr) = [2, 1]"
      unfolding lens using l by simp
  qed
  have eight: "8 \<le> length ms \<longrightarrow>
      map (\<lambda>w. length (week_skills w)) (weekly_plan_of h ms sr) = [2, 2, 2, 2]"
  proof
    assume l: "8 \<le> length ms"
    then have "c = 4" unfolding c_eq by presburger
    then have "[0 ..< c] = [0, 1, 2, 3]" by (simp add: upt_rec)
    then show "map (\<lambda>w. length (week_skills w)) (weekly_plan_of h ms sr) = [2, 2, 2, 2]"
      unfolding lens using l by simp
  qed
  have all: "\<forall>k < length (weekly_plan_of h ms sr).
      week_number (weekly_plan_of h ms sr ! k) = k + 1 \<and>
      week_skills (weekly_plan_of h ms sr ! k) = slice ms (2 * k) (2 * k + 2) \<and>
      week_skills (weekly_plan_of h ms sr ! k) \<noteq> []"
    using nth per ne by (simp add: len)
  have len': "length (weekly_plan_of h ms sr) = min 4 ((length ms + 1) div 2)"
    using len c_eq by simp
  from len' all cc three eight show ?thesis by blast
qed

theorem weekly_plan_periods_witness:
  "map (\<lambda>w. length (week_skills w)) (weekly_plan_of example_store [4, 2, 1] []) = [2, 1] \<and>
   week_number (weekly_plan_of example_store [4, 2, 1] [] ! 1) = 2 \<and>
   week_skills (weekly_plan_of example_store [4, 2, 1] [] ! 1) = [1] \<and>
   map (\<lambda>w. length (week_skills w))
     (weekly_plan_of ten_skills [0, 1, 2, 3, 4, 5, 6, 7, 8, 9] []) = [2, 2, 2, 2] \<and>
   concat (map week_skills (weekly_plan_of ten_skills [0, 1, 2, 3, 4, 5, 6, 7, 8, 9] [])) =
     [0, 1, 2, 3, 4, 5, 6, 7]"
proof -
  note three = weekly_plan_periods [of example_store "[4, 2, 1]" "[]"]
  note ten = weekly_plan_periods [of ten_skills "[0, 1, 2, 3, 4, 5, 6, 7, 8, 9]" "[]"]
  have l3: "length [4, 2, 1 :: nat] = 3" by simp
  have l10: "8 \<le> length [0, 1, 2, 3, 4, 5, 6, 7, 8, 9 :: nat]" by simp
  from three l3 have a: "map (\<lambda>w. length (week_skills w))
      (weekly_plan_of example_store [4, 2, 1] []) = [2, 1]"
    by blast
  from three have "length (weekly_plan_of example_store [4, 2, 1] []) = min 4 ((length [4, 2, 1 :: nat] + 1) div 2)"
    by blast
  then have "1 < length (weekly_plan_of example_store [4, 2, 1] [])" by simp
  with three have "week_number (weekly_plan_of example_store [4, 2, 1] [] ! 1) = 1 + 1 \<and>
      week_skills (weekly_plan_of example_store [4, 2, 1] [] ! 1) = slice [4, 2, 1] (2 * 1) (2 * 1 + 2)"
    by blast
  then have b: "week_number (weekly_plan_of example_store [4, 2, 1] [] ! 1) = 2"
    and c: "week_skills (weekly_plan_of example_store [4, 2, 1] [] ! 1) = [1]"
    by (simp_all add: slice_def)
  from ten l10 have d: "map (\<lambda>w. length (week_skills w))
     (weekly_plan_of ten_skills [0, 1, 2, 3, 4, 5, 6, 7, 8, 9] []) = [2, 2, 2, 2]"
    by blast
  from ten have "concat (map week_skills (weekly_plan_of ten_skills [0, 1, 2, 3, 4, 5, 6, 7, 8, 9] [])) =
     take 8 [0, 1, 2, 3, 4, 5, 6, 7, 8, 9]"
    by blast
  then have e: "concat (map week_skills (weekly_plan_of ten_skills [0, 1, 2, 3, 4, 5, 6, 7, 8, 9] [])) =
     [0, 1, 2, 3, 4, 5, 6, 7]"
    by simp
  from a b c d e show ?thesis by blast
qed


lemma fetch_resources_log:
  "skill_list \<noteq> [] \<Longrightarrow> snd (fetch_resources_for_skills db h skill_list sr lookups) \<noteq> []"
proof (induction skill_list arbitrary: sr lookups)
  case Nil
  then show ?case by simp
next
  case (Cons a rest)
  show ?case
  proof (cases "db (name (h ! a)) 3")
    case (Inl e)
    then show ?thesis by simp
  next
    case (Inr rows)
    show ?thesis
    proof (cases rest)
      case Nil
      then show ?thesis using Inr by simp
    next
      case (Cons b bs)
      then show ?thesis using Inr Cons.IH by simp
    qed
  qed
qed

lemma generate_learning_path_lookups:
  assumes "missing_skills res \<noteq> []"
  shows "snd (snd (generate_learning_path db str_float now h res)) \<noteq> []"
proof -
  let ?p = "prioritize_skills (missing_skills res) 8"
  from assms have "?p \<noteq> []" by (simp add: prioritize_skills_def)
  then have "snd (fetch_resources_for_skills db h ?p [] []) \<noteq> []"
    by (rule fetch_resources_log)
  then show ?thesis using assms
    by (cases "fetch_resources_for_skills db h ?p [] []")
       (auto simp: generate_learning_path_def Let_def split: sum.splits)
qed



section \<open>The skill extractor: short texts\<close>

lemma length_strip_le: "length (strip t) \<le> length t"
proof -
  have "length (strip t) \<le> length (dropWhile is_space t)"
    unfolding strip_def using length_dropWhile_le [of is_space "rev (dropWhile is_space t)"]
    by simp
  also have "\<dots> \<le> length t" by (rule length_dropWhile_le)
  finally show ?thesis .
qed

text \<open>
  Claim C7. For a text that is \<open>None\<close>, empty or shorter than 10 characters, the
  extraction returns the empty list and runs neither the dictionary detector nor the
  linguistic detector. (For a text with at least 10 characters after stripping, the
  dictionary detector is run, and the linguistic one when its model is loaded: lemma
  \<open>extract_skills_runs_detectors\<close>.)
\<close>

theorem extract_skills_short_text:
  assumes "text = None \<or> (\<exists>t. text = Some t \<and> length t < 10)"
  shows "extract_skills nlp iteration_order text = ([], [])"
proof (cases "text")
  case None
  then show ?thesis by (simp add: extract_skills_def)
next
  case (Some t)
  with assms have "length t < 10" by simp
  with length_strip_le [of t] have "length (strip t) < 10" by simp
  then show ?thesis using Some by (simp add: extract_skills_def)
qed

lemma extract_skills_runs_detectors:
  assumes "text = Some t" and "10 \<le> length (strip t)"
  shows "snd (extract_skills nlp iteration_order text) =
           (case nlp of None \<Rightarrow> [DictionaryDetector]
            | Some model \<Rightarrow> [DictionaryDetector, LinguisticDetector])"
proof -
  from assms(2) have "t \<noteq> []" by (auto simp: strip_def)
  then show ?thesis using assms
    by (simp add: extract_skills_def Let_def split: option.splits)
qed

theorem extract_skills_short_text_witness:
  "extract_skills None sorted_list_of_set None = ([], []) \<and>
   extract_skills None sorted_list_of_set (Some []) = ([], []) \<and>
   length ''Python'' < 10 \<and>
   extract_skills None sorted_list_of_set (Some ''Python'') = ([], [])"
proof -
  have l: "length ''Python'' < 10" by simp
  have a: "extract_skills None sorted_list_of_set None = ([], [])"
    using extract_skills_short_text [of None] by simp
  have b: "extract_skills None sorted_list_of_set (Some []) = ([], [])"
    using extract_skills_short_text [of "Some []"] by simp
  have c: "extract_skills None sorted_list_of_set (Some ''Python'') = ([], [])"
    using l extract_skills_short_text [of "Some ''Python''"] by simp
  from a b l c show ?thesis by blast
qed

end
